theory Spec2Isabelle
  imports Main
begin

section \<open>The depthai module initialiser (src/py_bindings.cpp)\<close>

text \<open>
  The file under verification is the body of \<^verbatim>\<open>PYBIND11_MODULE(depthai, m)\<close>. It sets seven
  version attributes on the module, seeds a deque of registration callbacks with
  \<^verbatim>\<open>push_front\<close>, hands a \<^verbatim>\<open>Callstack\<close> adapter over that deque to
  \<^verbatim>\<open>CommonBindings::bind\<close>, resolves the signal-handler flag from the Python modules
  \<^verbatim>\<open>sys\<close> and \<^verbatim>\<open>builtins\<close>, and finally calls \<^verbatim>\<open>dai::initialize\<close>.
\<close>

subsection \<open>Values, exceptions, interpreter state\<close>

text \<open>
  A thrown C++ value either derives from \<^verbatim>\<open>std::exception\<close> (this includes pybind11's
  \<^verbatim>\<open>error_already_set\<close> and \<^verbatim>\<open>cast_error\<close>) or it does not. The handler
  \<^verbatim>\<open>catch (...)\<close> matches both, \<^verbatim>\<open>catch (const std::exception&)\<close> only the first.
\<close>

datatype exn = StdException string | NonStdException string

datatype pyobj = PyStr string | PyBool bool | PyObject nat

type_synonym namespace = "string \<rightharpoonup> pyobj"

text \<open>
  What the running code can see of the Python process: the attribute dictionary of the
  module \<^verbatim>\<open>m\<close> under construction and the modules \<^verbatim>\<open>py::module_::import\<close> can find.
\<close>

record world =
  module_attrs :: namespace
  importable :: "string \<rightharpoonup> namespace"

text \<open>
  The build constants are macros and constants of headers outside this file
  (\<^verbatim>\<open>DEPTHAI_PYTHON_VERSION\<close>, \<^verbatim>\<open>dai::build::DEVICE_VERSION\<close>, ...); they are parameters.
\<close>

record build_info =
  DEPTHAI_PYTHON_VERSION :: string
  DEPTHAI_PYTHON_COMMIT_HASH :: string
  DEPTHAI_PYTHON_COMMIT_DATETIME :: string
  DEPTHAI_PYTHON_BUILD_DATETIME :: string
  DEVICE_VERSION :: string
  BOOTLOADER_VERSION :: string
  DEVICE_RVC3_VERSION :: string

definition setattr :: "string \<Rightarrow> pyobj \<Rightarrow> world \<Rightarrow> world" where
  "setattr name v w = w\<lparr>module_attrs := (module_attrs w)(name \<mapsto> v)\<rparr>"

text \<open>Lines 47-53: the seven assignments \<^verbatim>\<open>m.attr(name) = constant\<close>, in textual order.\<close>

definition set_version_attrs :: "build_info \<Rightarrow> world \<Rightarrow> world" where
  "set_version_attrs bi w =
     (let w = setattr ''__version__'' (PyStr (DEPTHAI_PYTHON_VERSION bi)) w;
          w = setattr ''__commit__'' (PyStr (DEPTHAI_PYTHON_COMMIT_HASH bi)) w;
          w = setattr ''__commit_datetime__'' (PyStr (DEPTHAI_PYTHON_COMMIT_DATETIME bi)) w;
          w = setattr ''__build_datetime__'' (PyStr (DEPTHAI_PYTHON_BUILD_DATETIME bi)) w;
          w = setattr ''__device_version__'' (PyStr (DEVICE_VERSION bi)) w;
          w = setattr ''__bootloader_version__'' (PyStr (BOOTLOADER_VERSION bi)) w;
          w = setattr ''__device_rvc3_version__'' (PyStr (DEVICE_RVC3_VERSION bi)) w
      in w)"

definition version_attr_names :: "string list" where
  "version_attr_names =
     [''__version__'', ''__commit__'', ''__commit_datetime__'', ''__build_datetime__'',
      ''__device_version__'', ''__bootloader_version__'', ''__device_rvc3_version__'']"

subsection \<open>The work-list of registration callbacks\<close>

text \<open>
  \<^verbatim>\<open>StackFunction\<close> is a pointer to a function taking the module and the adapter. The
  named constructors are the functions whose address the file takes, \<open>NoOpLambda\<close> is
  the captureless lambda of line 71, and \<open>Extern n\<close> is any other function pointer (the
  ones pushed by the two \<^verbatim>\<open>addToCallstack\<close> helpers, or by a running callback).
\<close>

datatype StackFunction =
    CommonBindings_register
  | LogBindings_bind
  | VersionBindings_bind
  | DataQueueBindings_bind
  | OpenVINOBindings_bind
  | AssetManagerBindings_bind
  | PipelineBindings_bind
  | XLinkBindings_bind
  | DeviceBindings_bind
  | DeviceBootloaderBindings_bind
  | CalibrationHandlerBindings_bind
  | RosBindings_bind
  | NoOpLambda
  | Extern nat

text \<open>\<^verbatim>\<open>std::deque::push_front\<close>: the head of the list is the front of the deque.\<close>

definition push_front :: "'a \<Rightarrow> 'a list \<Rightarrow> 'a list" where
  "push_front x q = x # q"

text \<open>
  Modelled from the spec: \<^verbatim>\<open>DatatypeBindings::addToCallstack\<close> and
  \<^verbatim>\<open>NodeBindings::addToCallstack\<close> are not part of the file. The spec allows only front
  insertion while the work-list is populated, so each helper is given by the callbacks it
  pushes, in call order, each with \<open>push_front\<close>.
\<close>

definition addToCallstack :: "StackFunction list \<Rightarrow> StackFunction list \<Rightarrow> StackFunction list" where
  "addToCallstack cbs q = fold push_front cbs q"

text \<open>Lines 56-71: the deque as it stands when the adapter is constructed.\<close>

definition callstack :: "StackFunction list \<Rightarrow> StackFunction list \<Rightarrow> StackFunction list" where
  "callstack datatype_cbs node_cbs =
     (let q = [];
          q = addToCallstack datatype_cbs q;
          q = push_front LogBindings_bind q;
          q = push_front VersionBindings_bind q;
          q = push_front DataQueueBindings_bind q;
          q = push_front OpenVINOBindings_bind q;
          q = addToCallstack node_cbs q;
          q = push_front AssetManagerBindings_bind q;
          q = push_front PipelineBindings_bind q;
          q = push_front XLinkBindings_bind q;
          q = push_front DeviceBindings_bind q;
          q = push_front DeviceBootloaderBindings_bind q;
          q = push_front CalibrationHandlerBindings_bind q;
          q = push_front RosBindings_bind q;
          q = push_front NoOpLambda q
      in q)"

text \<open>
  Line 73 builds the adapter from the deque. The class \<^verbatim>\<open>Callstack\<close> is outside the file,
  and nothing in the file says which end of the deque it hands out first: that end is a
  parameter. The result lists the callbacks in the order in which the adapter hands them
  out.
\<close>

datatype consumed_end = DequeFront | DequeBack

definition Callstack :: "consumed_end \<Rightarrow> StackFunction list \<Rightarrow> StackFunction list" where
  "Callstack side q = (case side of DequeFront \<Rightarrow> q | DequeBack \<Rightarrow> rev q)"

text \<open>
  Modelled from the spec: the bodies of the registration functions are not part of the
  file. By the spec (3 and 4.1) a running callback writes to the module, may throw, and can
  do one thing to the work-list: push callbacks to its front. So a table gives, for each
  function pointer and each state it is invoked in: whether it throws, the state it leaves,
  and the callbacks it pushed, in call order.
\<close>

type_synonym bindings = "StackFunction \<Rightarrow> world \<Rightarrow> exn option \<times> world \<times> StackFunction list"

text \<open>The lambda of line 71 has an empty body, whatever the table says.\<close>

definition invoke :: "bindings \<Rightarrow> StackFunction \<Rightarrow> world \<Rightarrow> exn option \<times> world \<times> StackFunction list" where
  "invoke code f w = (if f = NoOpLambda then (None, w, []) else code f w)"

text \<open>
  What is logged: each invocation of a callback, each call of \<^verbatim>\<open>py::module_::import\<close>
  (whether or not it succeeds) and each call of \<^verbatim>\<open>dai::initialize\<close> with its arguments.
\<close>

datatype event = Invoked StackFunction | Imported string | Initialized string bool

text \<open>
  Modelled from the spec: the \<^verbatim>\<open>Callstack\<close> adapter and its drain are not part of the file.
  Following the spec (4.1), \<open>drain\<close> repeatedly removes the front callback and invokes it
  until the list is empty; a callback that throws stops the drain at once, with the rest
  left in the list. The result is the exception (if any), the state, the remaining list
  and the log of invocations. A drain that never ends has the value \<open>None\<close>.
\<close>

partial_function (option) drain ::
  "bindings \<Rightarrow> world \<Rightarrow> StackFunction list \<Rightarrow> event list
     \<Rightarrow> (exn option \<times> world \<times> StackFunction list \<times> event list) option" where
  "drain code w q log =
     (case q of
        [] \<Rightarrow> Some (None, w, [], log)
      | f # rest \<Rightarrow>
          (case invoke code f w of
             (Some e, w', pushed) \<Rightarrow> Some (Some e, w', fold push_front pushed rest, log @ [Invoked f])
           | (None, w', pushed) \<Rightarrow> drain code w' (fold push_front pushed rest) (log @ [Invoked f])))"

text \<open>
  Modelled from the spec: \<^verbatim>\<open>CommonBindings::bind\<close> is not part of the file. Following the
  spec, the initial call performs the common registration first (it is handed the adapter
  like every callback) and then drains the work-list.
\<close>

definition CommonBindings_bind ::
  "bindings \<Rightarrow> world \<Rightarrow> StackFunction list
     \<Rightarrow> (exn option \<times> world \<times> StackFunction list \<times> event list) option" where
  "CommonBindings_bind code w adapter = drain code w (CommonBindings_register # adapter) []"

text \<open>
  Sequencing of drains: carry on with the callbacks \<open>ys\<close> after a drain that gave \<open>r\<close>.
  After a throw, \<open>ys\<close> is merely what is still in the list.
\<close>

definition then_drain ::
  "bindings \<Rightarrow> (exn option \<times> world \<times> StackFunction list \<times> event list) option
     \<Rightarrow> StackFunction list
     \<Rightarrow> (exn option \<times> world \<times> StackFunction list \<times> event list) option" where
  "then_drain code r ys =
     (case r of
        None \<Rightarrow> None
      | Some (Some e, w', rest, log') \<Rightarrow> Some (Some e, w', rest @ ys, log')
      | Some (None, w', rest, log') \<Rightarrow> drain code w' (rest @ ys) log')"

text \<open>
  Modelled from the spec: the loop of the drain (4.1), iteration by iteration.
  \<open>drain_steps code n w q log\<close> is the state, the list and the log after \<open>n\<close> callbacks
  have been removed from the front and invoked, none of which threw; it is \<open>None\<close> when the
  list runs out or a callback throws before that.
\<close>

fun drain_steps ::
  "bindings \<Rightarrow> nat \<Rightarrow> world \<Rightarrow> StackFunction list \<Rightarrow> event list
     \<Rightarrow> (world \<times> StackFunction list \<times> event list) option" where
  "drain_steps code 0 w q log = Some (w, q, log)"
| "drain_steps code (Suc n) w [] log = None"
| "drain_steps code (Suc n) w (f # rest) log =
     (case invoke code f w of
        (None, w', pushed) \<Rightarrow> drain_steps code n w' (fold push_front pushed rest) (log @ [Invoked f])
      | (Some e, w', pushed) \<Rightarrow> None)"

subsection \<open>The signal-handler option (lines 79-96)\<close>

definition signalHandlerKey :: string where
  "signalHandlerKey = ''DEPTHAI_INSTALL_SIGNAL_HANDLER''"

text \<open>
  \<^verbatim>\<open>py::module_::import(name)\<close> throws when the interpreter cannot find the module; the
  call is logged either way. \<^verbatim>\<open>py::hasattr\<close> only answers.
\<close>

definition import_module :: "world \<Rightarrow> string \<Rightarrow> event list \<Rightarrow> (exn + namespace) \<times> event list" where
  "import_module w name log =
     (case importable w name of
        None \<Rightarrow> (Inl (StdException ''error_already_set''), log @ [Imported name])
      | Some ns \<Rightarrow> (Inr ns, log @ [Imported name]))"

definition hasattr :: "namespace \<Rightarrow> string \<Rightarrow> bool" where
  "hasattr ns name = (ns name \<noteq> None)"

text \<open>
  \<^verbatim>\<open>ns.attr(name).cast<bool>()\<close>. The conversion is pybind11's; \<open>caster v = None\<close> says
  that it rejects the object \<open>v\<close>, which throws \<^verbatim>\<open>cast_error\<close>.
\<close>

definition attr_cast_bool :: "(pyobj \<Rightarrow> bool option) \<Rightarrow> namespace \<Rightarrow> string \<Rightarrow> exn + bool" where
  "attr_cast_bool caster ns name =
     (case ns name of
        None \<Rightarrow> Inl (StdException ''error_already_set'')
      | Some v \<Rightarrow> (case caster v of None \<Rightarrow> Inl (StdException ''cast_error'') | Some b \<Rightarrow> Inr b))"

text \<open>
  The body of one \<^verbatim>\<open>try\<close> block. \<^verbatim>\<open>&&\<close> does not evaluate its right operand when the
  flag is already false.
\<close>

definition probe_body ::
  "(pyobj \<Rightarrow> bool option) \<Rightarrow> world \<Rightarrow> string \<Rightarrow> bool \<times> event list \<Rightarrow> (exn + bool) \<times> event list" where
  "probe_body caster w name st =
     (case st of (flag, log) \<Rightarrow>
        (case import_module w name log of
           (Inl e, log') \<Rightarrow> (Inl e, log')
         | (Inr ns, log') \<Rightarrow>
             (if hasattr ns signalHandlerKey
              then (if flag then attr_cast_bool caster ns signalHandlerKey else Inr False)
              else Inr flag,
              log')))"

text \<open>
  \<^verbatim>\<open>try { ... } catch (...) { }\<close>: whatever is thrown, the flag keeps its value. What the
  block did before it threw stays done.
\<close>

definition probe :: "(pyobj \<Rightarrow> bool option) \<Rightarrow> world \<Rightarrow> string \<Rightarrow> bool \<times> event list \<Rightarrow> bool \<times> event list" where
  "probe caster w name st =
     (case probe_body caster w name st of
        (Inl e, log') \<Rightarrow> (fst st, log')
      | (Inr flag', log') \<Rightarrow> (flag', log'))"

text \<open>Lines 79-96: the default, then the probe of \<^verbatim>\<open>sys\<close>, then the probe of \<^verbatim>\<open>builtins\<close>.\<close>

definition installSignalHandler :: "(pyobj \<Rightarrow> bool option) \<Rightarrow> world \<Rightarrow> event list \<Rightarrow> bool \<times> event list" where
  "installSignalHandler caster w log =
     (let st = (True, log);
          st = probe caster w ''sys'' st;
          st = probe caster w ''builtins'' st
      in st)"

text \<open>
  The resolution in the spec's words: an operation that reads the flag from a namespace
  without ever failing, a default of true, and the conjunction of all values found.
\<close>

definition tryRead :: "(pyobj \<Rightarrow> bool option) \<Rightarrow> world \<Rightarrow> string \<Rightarrow> bool option" where
  "tryRead caster w name =
     (case importable w name of
        None \<Rightarrow> None
      | Some ns \<Rightarrow> (case ns signalHandlerKey of None \<Rightarrow> None | Some v \<Rightarrow> caster v))"

definition resolve_spec :: "(pyobj \<Rightarrow> bool option) \<Rightarrow> world \<Rightarrow> bool" where
  "resolve_spec caster w =
     fold (\<lambda>name acc. acc \<and> (case tryRead caster w name of None \<Rightarrow> True | Some b \<Rightarrow> b))
       [''sys'', ''builtins''] True"

subsection \<open>Module construction\<close>

text \<open>The first argument of line 100.\<close>

definition banner :: "build_info \<Rightarrow> string" where
  "banner bi =
     ''Python bindings - version: '' @ DEPTHAI_PYTHON_VERSION bi @ '' from ''
       @ DEPTHAI_PYTHON_COMMIT_DATETIME bi @ '' build: '' @ DEPTHAI_PYTHON_BUILD_DATETIME bi"

text \<open>
  What the caller of the module initialiser observes: the exception that left it (if any),
  the state, and the log of callback invocations, imports and initializer calls.
\<close>

record construction =
  raised :: "exn option"
  final :: world
  events :: "event list"

text \<open>
  \<^verbatim>\<open>dai::initialize\<close> belongs to the native library: \<open>initialize text flag\<close> is \<open>None\<close>
  when the call returns and the thrown value otherwise. The call of line 100 is logged with
  its arguments, whatever it does.
\<close>

definition dai_initialize ::
  "(string \<Rightarrow> bool \<Rightarrow> exn option) \<Rightarrow> string \<Rightarrow> bool \<Rightarrow> event list \<Rightarrow> exn option \<times> event list" where
  "dai_initialize initialize text flag log = (initialize text flag, log @ [Initialized text flag])"

text \<open>Lines 99-103: the call in its \<^verbatim>\<open>try\<close> block, which catches \<^verbatim>\<open>const std::exception&\<close> only.\<close>

definition call_initialize ::
  "(string \<Rightarrow> bool \<Rightarrow> exn option) \<Rightarrow> string \<Rightarrow> bool \<Rightarrow> event list \<Rightarrow> exn option \<times> event list" where
  "call_initialize initialize text flag log =
     (case dai_initialize initialize text flag log of
        (None, log') \<Rightarrow> (None, log')
      | (Some (StdException s), log') \<Rightarrow> (None, log')
      | (Some (NonStdException s), log') \<Rightarrow> (Some (NonStdException s), log'))"

text \<open>
  The body of the module initialiser, lines 44-104 in order, for an adapter that hands out
  the given end of the deque first. The initial call of line 76 is in no \<^verbatim>\<open>try\<close> block:
  what it throws leaves the body at once. A body whose initial call never returns has the
  value \<open>None\<close>.
\<close>

definition depthai_module_with ::
  "consumed_end \<Rightarrow> build_info \<Rightarrow> StackFunction list \<Rightarrow> StackFunction list \<Rightarrow> bindings
     \<Rightarrow> (pyobj \<Rightarrow> bool option) \<Rightarrow> (string \<Rightarrow> bool \<Rightarrow> exn option) \<Rightarrow> world
     \<Rightarrow> construction option" where
  "depthai_module_with side bi datatype_cbs node_cbs code caster initialize m =
     (let w = set_version_attrs bi m;
          callstackAdapter = Callstack side (callstack datatype_cbs node_cbs)
      in case CommonBindings_bind code w callstackAdapter of
           None \<Rightarrow> None
         | Some (Some e, w', rest, log) \<Rightarrow> Some \<lparr>raised = Some e, final = w', events = log\<rparr>
         | Some (None, w', rest, log) \<Rightarrow>
             (case installSignalHandler caster w' log of
                (flag, log') \<Rightarrow>
                  (case call_initialize initialize (banner bi) flag log' of
                     (thrown, log'') \<Rightarrow>
                       Some \<lparr>raised = thrown, final = w', events = log''\<rparr>)))"

text \<open>
  The module initialiser with the work-list of the spec, whose front is the front of the
  deque: new callbacks and seeded callbacks enter at the end that is consumed.
\<close>

definition depthai_module ::
  "build_info \<Rightarrow> StackFunction list \<Rightarrow> StackFunction list \<Rightarrow> bindings
     \<Rightarrow> (pyobj \<Rightarrow> bool option) \<Rightarrow> (string \<Rightarrow> bool \<Rightarrow> exn option) \<Rightarrow> world
     \<Rightarrow> construction option" where
  "depthai_module bi datatype_cbs node_cbs code caster initialize m =
     depthai_module_with DequeFront bi datatype_cbs node_cbs code caster initialize m"

subsection \<open>Sample inputs\<close>

text \<open>A conversion that accepts Python's two booleans and rejects every other object.\<close>

definition strict_caster :: "pyobj \<Rightarrow> bool option" where
  "strict_caster v = (case v of PyBool b \<Rightarrow> Some b | _ \<Rightarrow> None)"

text \<open>
  A process in which \<^verbatim>\<open>sys\<close> and \<^verbatim>\<open>builtins\<close> can be imported and hold at most the
  signal-handler attribute, with the given values.
\<close>

definition flag_world :: "pyobj option \<Rightarrow> pyobj option \<Rightarrow> world" where
  "flag_world a b =
     \<lparr>module_attrs = Map.empty,
      importable = [''sys'' \<mapsto> (\<lambda>k. if k = signalHandlerKey then a else None),
                    ''builtins'' \<mapsto> (\<lambda>k. if k = signalHandlerKey then b else None)]\<rparr>"

text \<open>
  The same two attributes as in \<open>flag_world\<close>, among much else: every other attribute of
  \<^verbatim>\<open>sys\<close> and \<^verbatim>\<open>builtins\<close> is set to false, a third module \<^verbatim>\<open>os\<close> and the module under
  construction both define the signal-handler attribute as false.
\<close>

definition noisy_world :: "pyobj option \<Rightarrow> pyobj option \<Rightarrow> world" where
  "noisy_world a b =
     \<lparr>module_attrs = [signalHandlerKey \<mapsto> PyBool False],
      importable = [''sys'' \<mapsto> (\<lambda>k. if k = signalHandlerKey then a else Some (PyBool False)),
                    ''builtins'' \<mapsto> (\<lambda>k. if k = signalHandlerKey then b else Some (PyBool False)),
                    ''os'' \<mapsto> (\<lambda>k. Some (PyBool False))]\<rparr>"

text \<open>
  The scenario of the spec (section 8): five callbacks, of which only \<open>cb_Y\<close> pushes, first
  \<open>cb_Y1\<close> and then \<open>cb_Y2\<close>; none throws or touches the state.
\<close>

definition cb_X :: StackFunction where "cb_X = Extern 0"
definition cb_Y :: StackFunction where "cb_Y = Extern 1"
definition cb_Z :: StackFunction where "cb_Z = Extern 2"
definition cb_Y1 :: StackFunction where "cb_Y1 = Extern 3"
definition cb_Y2 :: StackFunction where "cb_Y2 = Extern 4"

definition scenario_code :: bindings where
  "scenario_code f w = (None, w, if f = cb_Y then [cb_Y1, cb_Y2] else [])"

definition empty_world :: world where
  "empty_world = \<lparr>module_attrs = Map.empty, importable = Map.empty\<rparr>"

text \<open>Registration callbacks that return without throwing, pushing or touching the state.\<close>

definition quiet_code :: bindings where
  "quiet_code f w = (None, w, [])"

text \<open>
  A table in which the device registration attaches one attribute and then throws, while
  the extension registration before it attaches an attribute and returns.
\<close>

definition failing_code :: bindings where
  "failing_code f w =
     (if f = DeviceBindings_bind
      then (Some (StdException ''registration failed''), setattr ''Device'' (PyObject 0) w, [])
      else if f = RosBindings_bind then (None, setattr ''ros'' (PyObject 1) w, [])
      else (None, w, []))"

text \<open>A table in which the version registration assigns \<^verbatim>\<open>__version__\<close> again.\<close>

definition rebinding_code :: bindings where
  "rebinding_code f w =
     (if f = VersionBindings_bind then (None, setattr ''__version__'' (PyStr ''rebound'') w, [])
      else (None, w, []))"

text \<open>
  A table in which the common registration pushes one callback, which returns, and nothing
  else pushes or throws.
\<close>

definition eager_code :: bindings where
  "eager_code f w = (None, w, if f = CommonBindings_register then [Extern 40] else [])"

text \<open>
  A table in which the XLink registration pushes one callback, and that callback attaches
  an attribute and then throws.
\<close>

definition nested_failing_code :: bindings where
  "nested_failing_code f w =
     (if f = XLinkBindings_bind then (None, w, [Extern 30])
      else if f = Extern 30
      then (Some (StdException ''nested failure''), setattr ''partial'' (PyObject 2) w, [])
      else (None, w, []))"

text \<open>A table in which every callback pushes itself again: the drain never ends.\<close>

definition looping_code :: bindings where
  "looping_code f w = (None, w, [f])"

definition sample_build :: build_info where
  "sample_build =
     \<lparr>DEPTHAI_PYTHON_VERSION = ''2.21.0.0'',
      DEPTHAI_PYTHON_COMMIT_HASH = ''0f3c'',
      DEPTHAI_PYTHON_COMMIT_DATETIME = ''2023-04-01'',
      DEPTHAI_PYTHON_BUILD_DATETIME = ''2023-04-02'',
      DEVICE_VERSION = ''d1'',
      BOOTLOADER_VERSION = ''0.0.24'',
      DEVICE_RVC3_VERSION = ''r3''\<rparr>"

text \<open>
  Three behaviours of the native initializer: it returns; it throws something derived from
  \<^verbatim>\<open>std::exception\<close>; it throws something else.
\<close>

definition initialize_ok :: "string \<Rightarrow> bool \<Rightarrow> exn option" where
  "initialize_ok text flag = None"

definition initialize_failing :: "string \<Rightarrow> bool \<Rightarrow> exn option" where
  "initialize_failing text flag = Some (StdException ''runtime_error'')"

definition initialize_alien :: "string \<Rightarrow> bool \<Rightarrow> exn option" where
  "initialize_alien text flag = Some (NonStdException ''int'')"

subsection \<open>Reading the log and the result\<close>

text \<open>The first invocation of \<open>a\<close> is followed by an invocation of \<open>b\<close>.\<close>

definition runs_before :: "StackFunction \<Rightarrow> StackFunction \<Rightarrow> event list \<Rightarrow> bool" where
  "runs_before a b log = (Invoked b \<in> set (tl (dropWhile (\<lambda>e. e \<noteq> Invoked a) log)))"


text \<open>The calls of \<^verbatim>\<open>dai::initialize\<close> in a log, with their arguments.\<close>

fun initializer_calls :: "event list \<Rightarrow> (string \<times> bool) list" where
  "initializer_calls [] = []"
| "initializer_calls (Initialized text flag # log) = (text, flag) # initializer_calls log"
| "initializer_calls (e # log) = initializer_calls log"

text \<open>The exception, the log and one attribute of the module, of a construction that ends.\<close>

definition outcome :: "construction option \<Rightarrow> exn option option" where
  "outcome c = (case c of None \<Rightarrow> None | Some r \<Rightarrow> Some (raised r))"

definition trace :: "construction option \<Rightarrow> event list option" where
  "trace c = (case c of None \<Rightarrow> None | Some r \<Rightarrow> Some (events r))"

definition final_attr :: "string \<Rightarrow> construction option \<Rightarrow> pyobj option" where
  "final_attr name c = (case c of None \<Rightarrow> None | Some r \<Rightarrow> module_attrs (final r) name)"

section \<open>Properties of the work-list\<close>

lemma fold_push_front: "fold push_front ps q = rev ps @ q"
  by (induction ps arbitrary: q) (simp_all add: push_front_def)

lemma drain_Nil: "drain code w [] log = Some (None, w, [], log)"
  by (subst drain.simps) simp

lemma drain_Cons:
  "drain code w (f # rest) log =
     (case invoke code f w of
        (Some e, w', pushed) \<Rightarrow> Some (Some e, w', fold push_front pushed rest, log @ [Invoked f])
      | (None, w', pushed) \<Rightarrow> drain code w' (fold push_front pushed rest) (log @ [Invoked f]))"
  by (subst drain.simps) simp

lemma drain_append_Some:
  assumes "drain code w xs log = Some r"
  shows "\<forall>ys. drain code w (xs @ ys) log = then_drain code (Some r) ys"
proof (rule drain.raw_induct[OF _ assms])
  fix d code w xs log r
  assume IH: "\<And>c w q l y. d c w q l = Some y \<Longrightarrow> \<forall>ys. drain c w (q @ ys) l = then_drain c (Some y) ys"
    and step: "(case xs of [] \<Rightarrow> Some (None, w, [], log)
      | f # rest \<Rightarrow>
          (case invoke code f w of
             (Some e, w', pushed) \<Rightarrow> Some (Some e, w', fold push_front pushed rest, log @ [Invoked f])
           | (None, w', pushed) \<Rightarrow> d code w' (fold push_front pushed rest) (log @ [Invoked f]))) = Some r"
  show "\<forall>ys. drain code w (xs @ ys) log = then_drain code (Some r) ys"
  proof (cases xs)
    case Nil
    with step show ?thesis by (auto simp: then_drain_def)
  next
    case (Cons f rest)
    show ?thesis
    proof (cases "invoke code f w")
      case (fields ex w' pushed)
      show ?thesis
      proof (cases ex)
        case None
        with step Cons fields have "d code w' (fold push_front pushed rest) (log @ [Invoked f]) = Some r"
          by simp
        from IH[OF this] show ?thesis using Cons fields None
          by (simp add: drain_Cons fold_push_front)
      next
        case (Some e)
        with step Cons fields show ?thesis
          by (auto simp: then_drain_def drain_Cons fold_push_front)
      qed
    qed
  qed
qed

lemma drain_append_None_aux:
  assumes "drain code w zs log = Some r"
  shows "\<forall>xs ys. zs = xs @ ys \<longrightarrow> (\<exists>r'. drain code w xs log = Some r')"
proof (rule drain.raw_induct[OF _ assms])
  fix d code w zs log r
  assume IH: "\<And>c w q l y. d c w q l = Some y \<Longrightarrow> \<forall>xs ys. q = xs @ ys \<longrightarrow> (\<exists>r'. drain c w xs l = Some r')"
    and step: "(case zs of [] \<Rightarrow> Some (None, w, [], log)
      | f # rest \<Rightarrow>
          (case invoke code f w of
             (Some e, w', pushed) \<Rightarrow> Some (Some e, w', fold push_front pushed rest, log @ [Invoked f])
           | (None, w', pushed) \<Rightarrow> d code w' (fold push_front pushed rest) (log @ [Invoked f]))) = Some r"
  show "\<forall>xs ys. zs = xs @ ys \<longrightarrow> (\<exists>r'. drain code w xs log = Some r')"
  proof (intro allI impI)
    fix xs ys assume zs: "zs = xs @ ys"
    show "\<exists>r'. drain code w xs log = Some r'"
    proof (cases xs)
      case Nil
      then show ?thesis by (simp add: drain_Nil)
    next
      case (Cons f rest)
      show ?thesis
      proof (cases "invoke code f w")
        case (fields ex w' pushed)
        show ?thesis
        proof (cases ex)
          case None
          with step Cons fields zs
          have "d code w' (fold push_front pushed (rest @ ys)) (log @ [Invoked f]) = Some r"
            by simp
          from IH[OF this, rule_format, of "fold push_front pushed rest" ys]
          show ?thesis using Cons fields None
            by (simp add: drain_Cons fold_push_front)
        next
          case (Some e)
          with Cons fields show ?thesis
            by (simp add: drain_Cons)
        qed
      qed
    qed
  qed
qed

lemma drain_append:
  "drain code w (xs @ ys) log = then_drain code (drain code w xs log) ys"
proof (cases "drain code w xs log")
  case None
  have "drain code w (xs @ ys) log = None"
  proof (cases "drain code w (xs @ ys) log")
    case (Some r)
    from drain_append_None_aux[OF this] None show ?thesis by auto
  qed simp
  with None show ?thesis by (simp add: then_drain_def)
next
  case (Some r)
  from drain_append_Some[OF this] Some show ?thesis by simp
qed

lemma drain_Cons_ok:
  "invoke code f w = (None, w', pushed) \<Longrightarrow>
     drain code w (f # pending) log
       = then_drain code (drain code w' (fold push_front pushed []) (log @ [Invoked f])) pending"
  using drain_append[of code w' "fold push_front pushed []" pending "log @ [Invoked f]"]
  by (simp add: drain_Cons fold_push_front)

lemma invoke_NoOpLambda: "invoke code NoOpLambda w = (None, w, [])"
  by (simp add: invoke_def)

lemma drain_result:
  assumes "drain code w q log = Some r"
  shows "(\<exists>tr. snd (snd (snd r)) = log @ tr \<and> (fst r = None \<longrightarrow> fst (snd (snd r)) = [] \<and> Invoked ` set q \<subseteq> set tr))"
proof (rule drain.raw_induct[OF _ assms])
  fix d code w q log r
  assume IH: "\<And>c w q l y. d c w q l = Some y \<Longrightarrow>
      (\<exists>tr. snd (snd (snd y)) = l @ tr \<and> (fst y = None \<longrightarrow> fst (snd (snd y)) = [] \<and> Invoked ` set q \<subseteq> set tr))"
    and step: "(case q of [] \<Rightarrow> Some (None, w, [], log)
      | f # rest \<Rightarrow>
          (case invoke code f w of
             (Some e, w', pushed) \<Rightarrow> Some (Some e, w', fold push_front pushed rest, log @ [Invoked f])
           | (None, w', pushed) \<Rightarrow> d code w' (fold push_front pushed rest) (log @ [Invoked f]))) = Some r"
  show "\<exists>tr. snd (snd (snd r)) = log @ tr \<and> (fst r = None \<longrightarrow> fst (snd (snd r)) = [] \<and> Invoked ` set q \<subseteq> set tr)"
  proof (cases q)
    case Nil
    with step have "r = (None, w, [], log)" by simp
    then show ?thesis using Nil by (intro exI[of _ "[]"]) simp
  next
    case (Cons f rest)
    show ?thesis
    proof (cases "invoke code f w")
      case (fields ex w' pushed)
      show ?thesis
      proof (cases ex)
        case None
        with step Cons fields have "d code w' (fold push_front pushed rest) (log @ [Invoked f]) = Some r"
          by simp
        from IH[OF this] obtain tr where
          tr: "snd (snd (snd r)) = (log @ [Invoked f]) @ tr"
              "fst r = None \<longrightarrow> fst (snd (snd r)) = [] \<and> Invoked ` set (fold push_front pushed rest) \<subseteq> set tr"
          by (elim exE conjE)
        show ?thesis
        proof (intro exI conjI impI)
          show "snd (snd (snd r)) = log @ (Invoked f # tr)" using tr(1) by simp
        next
          assume "fst r = None" with tr(2) show "fst (snd (snd r)) = []" by simp
        next
          assume "fst r = None"
          with tr(2) have "Invoked ` set rest \<subseteq> set tr" by (auto simp: fold_push_front)
          then show "Invoked ` set q \<subseteq> set (Invoked f # tr)" using Cons by auto
        qed
      next
        case (Some e)
        with step Cons fields
        have "r = (Some e, w', fold push_front pushed rest, log @ [Invoked f])" by simp
        then show ?thesis by (intro exI[of _ "[Invoked f]"]) simp
      qed
    qed
  qed
qed


lemma drain_ok_empty:
  "drain code w q log = Some (None, w', rest, log') \<Longrightarrow> rest = []"
  using drain_result[of code w q log "(None, w', rest, log')"] by auto

lemma drain_ok_covers:
  "drain code w q log = Some (None, w', rest, log') \<Longrightarrow> \<exists>tr. log' = log @ tr \<and> Invoked ` set q \<subseteq> set tr"
  using drain_result[of code w q log "(None, w', rest, log')"] by auto


lemma drain_invariant:
  assumes run: "drain code w q log = Some r"
    and keep: "\<And>f w e w' ps. P w \<Longrightarrow> code f w = (e, w', ps) \<Longrightarrow> P w'"
    and Pw: "P w"
  shows "P (fst (snd r))"
proof -
  have "code = code \<longrightarrow> P w \<longrightarrow> P (fst (snd r))"
  proof (rule drain.raw_induct[OF _ run, where P = "\<lambda>c w q l y. c = code \<longrightarrow> P w \<longrightarrow> P (fst (snd y))"], intro impI)
    fix d c w q log r
    assume IH: "\<And>c w q l y. d c w q l = Some y \<Longrightarrow> c = code \<longrightarrow> P w \<longrightarrow> P (fst (snd y))"
      and step: "(case q of [] \<Rightarrow> Some (None, w, [], log)
        | f # rest \<Rightarrow>
            (case invoke c f w of
               (Some e, w', pushed) \<Rightarrow> Some (Some e, w', fold push_front pushed rest, log @ [Invoked f])
             | (None, w', pushed) \<Rightarrow> d c w' (fold push_front pushed rest) (log @ [Invoked f]))) = Some r"
      and c: "c = code" and Pw: "P w"
    show "P (fst (snd r))"
    proof (cases q)
      case Nil
      with step Pw show ?thesis by auto
    next
      case (Cons f rest)
      show ?thesis
      proof (cases "invoke code f w")
        case (fields ex w' pushed)
        have Pw': "P w'"
        proof (cases "f = NoOpLambda")
          case True with fields Pw show ?thesis by (simp add: invoke_def)
        next
          case False with fields keep[OF Pw, of f ex w' pushed] show ?thesis by (simp add: invoke_def)
        qed
        show ?thesis
        proof (cases ex)
          case None
          with step Cons fields c have "d code w' (fold push_front pushed rest) (log @ [Invoked f]) = Some r"
            by simp
          from IH[OF this] Pw' show ?thesis by simp
        next
          case (Some e)
          with step Cons fields c Pw' show ?thesis by auto
        qed
      qed
    qed
  qed
  with Pw show ?thesis by simp
qed

lemma initializer_calls_append:
  "initializer_calls (xs @ ys) = initializer_calls xs @ initializer_calls ys"
  by (induction xs rule: initializer_calls.induct) simp_all

lemma initializer_calls_Invoked: "initializer_calls (map Invoked fs) = []"
  by (induction fs) simp_all

lemma drain_no_initializer:
  assumes "drain code w q log = Some r"
  shows "initializer_calls (snd (snd (snd r))) = initializer_calls log"
proof (rule drain.raw_induct[OF _ assms])
  fix d code w q log r
  assume IH: "\<And>c w q l y. d c w q l = Some y \<Longrightarrow>
      initializer_calls (snd (snd (snd y))) = initializer_calls l"
    and step: "(case q of [] \<Rightarrow> Some (None, w, [], log)
      | f # rest \<Rightarrow>
          (case invoke code f w of
             (Some e, w', pushed) \<Rightarrow> Some (Some e, w', fold push_front pushed rest, log @ [Invoked f])
           | (None, w', pushed) \<Rightarrow> d code w' (fold push_front pushed rest) (log @ [Invoked f]))) = Some r"
  show "initializer_calls (snd (snd (snd r))) = initializer_calls log"
  proof (cases q)
    case Nil
    with step have "r = (None, w, [], log)" by simp
    then show ?thesis by simp
  next
    case (Cons f rest)
    show ?thesis
    proof (cases "invoke code f w")
      case (fields ex w' pushed)
      show ?thesis
      proof (cases ex)
        case None
        with step Cons fields have "d code w' (fold push_front pushed rest) (log @ [Invoked f]) = Some r"
          by simp
        from IH[OF this] show ?thesis by (simp add: initializer_calls_append)
      next
        case (Some e)
        with step Cons fields
        have "r = (Some e, w', fold push_front pushed rest, log @ [Invoked f])" by simp
        then show ?thesis by (simp add: initializer_calls_append)
      qed
    qed
  qed
qed

lemma drain_steps_drain:
  "drain_steps code n w q log = Some (w', q', log') \<Longrightarrow> drain code w q log = drain code w' q' log'"
proof (induction code n w q log rule: drain_steps.induct)
  case (1 code w q log)
  then show ?case by simp
next
  case (2 code n w log)
  then show ?case by simp
next
  case (3 code n w f rest log)
  obtain ex w1 ps where inv: "invoke code f w = (ex, w1, ps)" by (cases "invoke code f w")
  show ?case
  proof (cases ex)
    case None
    with 3 inv show ?thesis by (simp add: drain_Cons)
  next
    case (Some e)
    with 3(2) inv show ?thesis by simp
  qed
qed

lemma drain_steps_raise:
  assumes steps: "drain_steps code n w q log = Some (w_n, f # below, log_n)"
    and raise: "invoke code f w_n = (Some e, w', pushed)"
  shows "drain code w q log = Some (Some e, w', fold push_front pushed below, log_n @ [Invoked f])"
  using drain_steps_drain[OF steps] raise by (simp add: drain_Cons)

lemma drain_raise_steps:
  assumes "drain code w q log = Some r"
  shows "\<forall>e w' rest log'. r = (Some e, w', rest, log') \<longrightarrow>
           (\<exists>n w_n f below pushed log_n.
              drain_steps code n w q log = Some (w_n, f # below, log_n)
            \<and> invoke code f w_n = (Some e, w', pushed)
            \<and> rest = fold push_front pushed below
            \<and> log' = log_n @ [Invoked f])"
proof (rule drain.raw_induct[OF _ assms])
  fix d code w q log r
  assume IH: "\<And>c w q l y. d c w q l = Some y \<Longrightarrow>
      \<forall>e w' rest log'. y = (Some e, w', rest, log') \<longrightarrow>
           (\<exists>n w_n f below pushed log_n.
              drain_steps c n w q l = Some (w_n, f # below, log_n)
            \<and> invoke c f w_n = (Some e, w', pushed)
            \<and> rest = fold push_front pushed below
            \<and> log' = log_n @ [Invoked f])"
    and step: "(case q of [] \<Rightarrow> Some (None, w, [], log)
      | f # rest \<Rightarrow>
          (case invoke code f w of
             (Some e, w', pushed) \<Rightarrow> Some (Some e, w', fold push_front pushed rest, log @ [Invoked f])
           | (None, w', pushed) \<Rightarrow> d code w' (fold push_front pushed rest) (log @ [Invoked f]))) = Some r"
  show "\<forall>e w' rest log'. r = (Some e, w', rest, log') \<longrightarrow>
           (\<exists>n w_n f below pushed log_n.
              drain_steps code n w q log = Some (w_n, f # below, log_n)
            \<and> invoke code f w_n = (Some e, w', pushed)
            \<and> rest = fold push_front pushed below
            \<and> log' = log_n @ [Invoked f])"
  proof (intro allI impI)
    fix e w' rest log'
    assume r: "r = (Some e, w', rest, log')"
    show "\<exists>n w_n f below pushed log_n.
              drain_steps code n w q log = Some (w_n, f # below, log_n)
            \<and> invoke code f w_n = (Some e, w', pushed)
            \<and> rest = fold push_front pushed below
            \<and> log' = log_n @ [Invoked f]"
    proof (cases q)
      case Nil
      with step r show ?thesis by simp
    next
      case (Cons g q1)
      show ?thesis
      proof (cases "invoke code g w")
        case (fields ex w1 ps)
        show ?thesis
        proof (cases ex)
          case None
          with step Cons fields have "d code w1 (fold push_front ps q1) (log @ [Invoked g]) = Some r"
            by simp
          from IH[OF this, rule_format, OF r] obtain n w_n f below pushed log_n where
            o: "drain_steps code n w1 (fold push_front ps q1) (log @ [Invoked g]) = Some (w_n, f # below, log_n)"
               "invoke code f w_n = (Some e, w', pushed)" "rest = fold push_front pushed below"
               "log' = log_n @ [Invoked f]"
            by (elim exE conjE)
          have "drain_steps code (Suc n) w q log = Some (w_n, f # below, log_n)"
            using o(1) Cons fields None by simp
          with o(2,3,4) show ?thesis by blast
        next
          case (Some e1)
          with step Cons fields r
          have eq: "e1 = e" "w1 = w'" "rest = fold push_front ps q1" "log' = log @ [Invoked g]"
            by simp_all
          have "drain_steps code 0 w q log = Some (w, g # q1, log)" using Cons by simp
          moreover have "invoke code g w = (Some e, w', ps)" using fields Some eq by simp
          ultimately show ?thesis using eq(3,4) by blast
        qed
      qed
    qed
  qed
qed



lemma drain_looping:
  assumes "drain code w q log = Some r"
  shows "code = looping_code \<longrightarrow> set q \<subseteq> {NoOpLambda}"
proof (rule drain.raw_induct[OF _ assms], intro impI)
  fix d code w q log r
  assume IH: "\<And>c w q l y. d c w q l = Some y \<Longrightarrow> c = looping_code \<longrightarrow> set q \<subseteq> {NoOpLambda}"
    and step: "(case q of [] \<Rightarrow> Some (None, w, [], log)
      | f # rest \<Rightarrow>
          (case invoke code f w of
             (Some e, w', pushed) \<Rightarrow> Some (Some e, w', fold push_front pushed rest, log @ [Invoked f])
           | (None, w', pushed) \<Rightarrow> d code w' (fold push_front pushed rest) (log @ [Invoked f]))) = Some r"
    and c: "code = looping_code"
  show "set q \<subseteq> {NoOpLambda}"
  proof (cases q)
    case Nil
    then show ?thesis by simp
  next
    case (Cons f rest)
    show ?thesis
    proof (cases "f = NoOpLambda")
      case True
      with step Cons c have "d looping_code w rest (log @ [Invoked f]) = Some r"
        by (simp add: invoke_def)
      from IH[OF this] have "set rest \<subseteq> {NoOpLambda}" by simp
      with True Cons show ?thesis by simp
    next
      case False
      with step Cons c have "d looping_code w (f # rest) (log @ [Invoked f]) = Some r"
        by (simp add: invoke_def looping_code_def push_front_def)
      from IH[OF this] have "f = NoOpLambda" by simp
      with False show ?thesis by simp
    qed
  qed
qed

section \<open>Properties of module construction\<close>

lemma import_module_eq:
  "import_module w name log =
     ((case importable w name of
         None \<Rightarrow> Inl (StdException ''error_already_set'')
       | Some ns \<Rightarrow> Inr ns),
      log @ [Imported name])"
  by (simp add: import_module_def split: option.splits)

lemma probe_fst:
  "fst (probe caster w name (flag, log)) =
     (flag \<and> (case tryRead caster w name of None \<Rightarrow> True | Some b \<Rightarrow> b))"
  by (auto simp: probe_def probe_body_def import_module_eq hasattr_def attr_cast_bool_def
        tryRead_def split: option.splits sum.splits)

lemma probe_snd: "snd (probe caster w name (flag, log)) = log @ [Imported name]"
  by (simp add: probe_def probe_body_def import_module_eq split: option.splits sum.splits)

lemma probe_eq:
  "probe caster w name (flag, log) =
     (flag \<and> (case tryRead caster w name of None \<Rightarrow> True | Some b \<Rightarrow> b), log @ [Imported name])"
  by (simp add: prod_eq_iff probe_fst probe_snd)

lemma installSignalHandler_eq:
  "installSignalHandler caster w log =
     ((case tryRead caster w ''sys'' of None \<Rightarrow> True | Some b \<Rightarrow> b) \<and>
      (case tryRead caster w ''builtins'' of None \<Rightarrow> True | Some b \<Rightarrow> b),
      log @ [Imported ''sys'', Imported ''builtins''])"
  by (simp add: installSignalHandler_def Let_def probe_eq)

lemma tryRead_bind:
  "tryRead caster w name = Option.bind (Option.bind (importable w name) (\<lambda>ns. ns signalHandlerKey)) caster"
  by (simp add: tryRead_def split: option.splits)

lemma callstack_eq:
  "callstack datatype_cbs node_cbs =
     [NoOpLambda, RosBindings_bind, CalibrationHandlerBindings_bind,
      DeviceBootloaderBindings_bind, DeviceBindings_bind, XLinkBindings_bind,
      PipelineBindings_bind, AssetManagerBindings_bind]
     @ rev node_cbs
     @ [OpenVINOBindings_bind, DataQueueBindings_bind, VersionBindings_bind, LogBindings_bind]
     @ rev datatype_cbs"
  by (simp add: callstack_def addToCallstack_def fold_push_front push_front_def)

lemma Callstack_DequeFront: "Callstack DequeFront q = q"
  by (simp add: Callstack_def)

lemma Callstack_DequeBack: "Callstack DequeBack q = rev q"
  by (simp add: Callstack_def)

lemma callstack_back:
  "Callstack DequeBack (callstack datatype_cbs node_cbs) =
     datatype_cbs
     @ [LogBindings_bind, VersionBindings_bind, DataQueueBindings_bind, OpenVINOBindings_bind]
     @ node_cbs
     @ [AssetManagerBindings_bind, PipelineBindings_bind, XLinkBindings_bind,
        DeviceBindings_bind, DeviceBootloaderBindings_bind, CalibrationHandlerBindings_bind,
        RosBindings_bind, NoOpLambda]"
  by (simp add: Callstack_DequeBack callstack_eq)

lemma callstack_back_snoc:
  "Callstack DequeBack (callstack datatype_cbs node_cbs)
     = butlast (Callstack DequeBack (callstack datatype_cbs node_cbs)) @ [NoOpLambda]"
  by (simp add: callstack_back butlast_append)


lemma callstack_front:
  "callstack datatype_cbs node_cbs = push_front NoOpLambda (tl (callstack datatype_cbs node_cbs))"
  by (simp add: callstack_eq push_front_def)

lemma drain_callstack_step:
  "drain code w (callstack datatype_cbs node_cbs) log
     = drain code w (tl (callstack datatype_cbs node_cbs)) (log @ [Invoked NoOpLambda])"
  by (subst callstack_front) (simp add: push_front_def drain_Cons invoke_NoOpLambda)

lemma CommonBindings_bind_no_initializer:
  "CommonBindings_bind code w q = Some (e, w', rest, log) \<Longrightarrow> initializer_calls log = []"
  using drain_no_initializer[of code w "CommonBindings_register # q" "[]" "(e, w', rest, log)"]
  by (simp add: CommonBindings_bind_def)

lemma call_initialize_eq:
  "call_initialize initialize text flag log =
     ((case initialize text flag of
         None \<Rightarrow> None
       | Some (StdException s) \<Rightarrow> None
       | Some (NonStdException s) \<Rightarrow> Some (NonStdException s)),
      log @ [Initialized text flag])"
  by (simp add: call_initialize_def dai_initialize_def split: option.splits exn.splits)

lemma depthai_module_with_ok:
  assumes "CommonBindings_bind code (set_version_attrs bi m) (Callstack side (callstack dts nodes))
      = Some (None, w', rest, log)"
  shows "depthai_module_with side bi dts nodes code caster initialize m =
           Some \<lparr>raised =
                   (case initialize (banner bi) (fst (installSignalHandler caster w' log)) of
                      None \<Rightarrow> None
                    | Some (StdException s) \<Rightarrow> None
                    | Some (NonStdException s) \<Rightarrow> Some (NonStdException s)),
                 final = w',
                 events = log @ [Imported ''sys'', Imported ''builtins'',
                                 Initialized (banner bi) (fst (installSignalHandler caster w' log))]\<rparr>"
  using assms
  by (simp add: depthai_module_with_def Let_def installSignalHandler_eq call_initialize_eq)

lemma depthai_module_with_raise:
  assumes "CommonBindings_bind code (set_version_attrs bi m) (Callstack side (callstack dts nodes))
      = Some (Some e, w', rest, log)"
  shows "depthai_module_with side bi dts nodes code caster initialize m =
           Some \<lparr>raised = Some e, final = w', events = log\<rparr>"
  using assms by (simp add: depthai_module_with_def Let_def)

lemma depthai_module_with_diverge:
  assumes "CommonBindings_bind code (set_version_attrs bi m) (Callstack side (callstack dts nodes)) = None"
  shows "depthai_module_with side bi dts nodes code caster initialize m = None"
  using assms by (simp add: depthai_module_with_def Let_def)

lemma depthai_module_ok:
  assumes "CommonBindings_bind code (set_version_attrs bi m) (callstack dts nodes) = Some (None, w', rest, log)"
  shows "depthai_module bi dts nodes code caster initialize m =
           Some \<lparr>raised =
                   (case initialize (banner bi) (fst (installSignalHandler caster w' log)) of
                      None \<Rightarrow> None
                    | Some (StdException s) \<Rightarrow> None
                    | Some (NonStdException s) \<Rightarrow> Some (NonStdException s)),
                 final = w',
                 events = log @ [Imported ''sys'', Imported ''builtins'',
                                 Initialized (banner bi) (fst (installSignalHandler caster w' log))]\<rparr>"
  unfolding depthai_module_def
  by (rule depthai_module_with_ok) (simp add: Callstack_DequeFront assms)

lemma depthai_module_raise:
  assumes "CommonBindings_bind code (set_version_attrs bi m) (callstack dts nodes) = Some (Some e, w', rest, log)"
  shows "depthai_module bi dts nodes code caster initialize m =
           Some \<lparr>raised = Some e, final = w', events = log\<rparr>"
  unfolding depthai_module_def
  by (rule depthai_module_with_raise) (simp add: Callstack_DequeFront assms)

lemma depthai_module_diverge:
  assumes "CommonBindings_bind code (set_version_attrs bi m) (callstack dts nodes) = None"
  shows "depthai_module bi dts nodes code caster initialize m = None"
  unfolding depthai_module_def
  by (rule depthai_module_with_diverge) (simp add: Callstack_DequeFront assms)

lemma depthai_module_final:
  assumes "depthai_module bi dts nodes code caster initialize m = Some r"
  shows "\<exists>e q l. CommonBindings_bind code (set_version_attrs bi m) (callstack dts nodes)
           = Some (e, final r, q, l)"
proof (cases "CommonBindings_bind code (set_version_attrs bi m) (callstack dts nodes)")
  case None
  with assms show ?thesis by (simp add: depthai_module_diverge)
next
  case (Some x)
  obtain ex w1 q1 l1 where x: "x = (ex, w1, q1, l1)" by (cases x)
  show ?thesis
  proof (cases ex)
    case None
    with Some x have run: "CommonBindings_bind code (set_version_attrs bi m) (callstack dts nodes)
        = Some (None, w1, q1, l1)" by simp
    from depthai_module_ok[OF run, of caster initialize] assms have "final r = w1" by auto
    with run show ?thesis by blast
  next
    case (Some e)
    with \<open>CommonBindings_bind code (set_version_attrs bi m) (callstack dts nodes) = Some x\<close> x
    have run: "CommonBindings_bind code (set_version_attrs bi m) (callstack dts nodes)
        = Some (Some e, w1, q1, l1)" by simp
    from depthai_module_raise[OF run, of caster initialize] assms have "final r = w1" by auto
    with run show ?thesis by blast
  qed
qed

lemma set_version_attrs_lookup:
  "module_attrs (set_version_attrs bi m) name =
     (if name = ''__device_rvc3_version__'' then Some (PyStr (DEVICE_RVC3_VERSION bi))
      else if name = ''__bootloader_version__'' then Some (PyStr (BOOTLOADER_VERSION bi))
      else if name = ''__device_version__'' then Some (PyStr (DEVICE_VERSION bi))
      else if name = ''__build_datetime__'' then Some (PyStr (DEPTHAI_PYTHON_BUILD_DATETIME bi))
      else if name = ''__commit_datetime__'' then Some (PyStr (DEPTHAI_PYTHON_COMMIT_DATETIME bi))
      else if name = ''__commit__'' then Some (PyStr (DEPTHAI_PYTHON_COMMIT_HASH bi))
      else if name = ''__version__'' then Some (PyStr (DEPTHAI_PYTHON_VERSION bi))
      else module_attrs m name)"
  by (simp add: set_version_attrs_def setattr_def Let_def)

subsection \<open>Runs on the sample inputs\<close>

lemma tryRead_flag_world:
  "tryRead strict_caster (flag_world a b) ''sys'' = (case a of None \<Rightarrow> None | Some v \<Rightarrow> strict_caster v)"
  "tryRead strict_caster (flag_world a b) ''builtins'' = (case b of None \<Rightarrow> None | Some v \<Rightarrow> strict_caster v)"
  by (simp_all add: tryRead_def flag_world_def)

lemma flag_world_lookup:
  "Option.bind (importable (flag_world a b) ''sys'') (\<lambda>ns. ns ''DEPTHAI_INSTALL_SIGNAL_HANDLER'') = a"
  "Option.bind (importable (flag_world a b) ''builtins'') (\<lambda>ns. ns ''DEPTHAI_INSTALL_SIGNAL_HANDLER'') = b"
  by (simp_all add: flag_world_def signalHandlerKey_def)

lemma noisy_world_lookup:
  "Option.bind (importable (noisy_world a b) ''sys'') (\<lambda>ns. ns ''DEPTHAI_INSTALL_SIGNAL_HANDLER'') = a"
  "Option.bind (importable (noisy_world a b) ''builtins'') (\<lambda>ns. ns ''DEPTHAI_INSTALL_SIGNAL_HANDLER'') = b"
  by (simp_all add: noisy_world_def signalHandlerKey_def)

lemma sample_flag:
  "fst (installSignalHandler strict_caster (set_version_attrs sample_build empty_world) log) = True"
  by (simp add: installSignalHandler_eq tryRead_def set_version_attrs_def setattr_def empty_world_def)

lemmas scenario_defs =
  cb_X_def cb_Y_def cb_Z_def cb_Y1_def cb_Y2_def scenario_code_def invoke_def push_front_def

lemmas sample_eval = drain_Cons drain_Nil invoke_def push_front_def


lemma failing_code_keeps:
  "\<forall>f w e w' ps. failing_code f w = (e, w', ps)
      \<longrightarrow> (\<forall>name \<in> set version_attr_names. module_attrs w' name = module_attrs w name)"
  by (auto simp: failing_code_def setattr_def version_attr_names_def split: if_splits)

lemma scenario_front_to_back:
  "drain scenario_code empty_world [cb_X, cb_Y, cb_Z] []
     = Some (None, empty_world, [], map Invoked [cb_X, cb_Y, cb_Y2, cb_Y1, cb_Z])"
  by (simp add: drain_Cons drain_Nil scenario_defs)

lemma scenario_seeded:
  "drain scenario_code empty_world (Callstack DequeFront (fold push_front [cb_X, cb_Y, cb_Z] [])) []
     = Some (None, empty_world, [], map Invoked [cb_Z, cb_Y, cb_Y2, cb_Y1, cb_X])"
  "drain scenario_code empty_world (Callstack DequeBack (fold push_front [cb_X, cb_Y, cb_Z] [])) []
     = Some (None, empty_world, [], map Invoked [cb_X, cb_Y, cb_Y2, cb_Y1, cb_Z])"
  by (simp_all add: Callstack_def drain_Cons drain_Nil scenario_defs)

lemma sample_quiet_bind:
  "CommonBindings_bind quiet_code (set_version_attrs sample_build empty_world)
       (callstack [Extern 10] [Extern 20])
     = Some (None, set_version_attrs sample_build empty_world, [],
         map Invoked
          [CommonBindings_register, NoOpLambda, RosBindings_bind,
           CalibrationHandlerBindings_bind, DeviceBootloaderBindings_bind,
           DeviceBindings_bind, XLinkBindings_bind, PipelineBindings_bind,
           AssetManagerBindings_bind, Extern 20, OpenVINOBindings_bind,
           DataQueueBindings_bind, VersionBindings_bind, LogBindings_bind, Extern 10])"
  by (simp add: CommonBindings_bind_def callstack_eq sample_eval quiet_code_def)

lemma sample_quiet_bind_back:
  "CommonBindings_bind quiet_code (set_version_attrs sample_build empty_world)
       (Callstack DequeBack (callstack [Extern 10] [Extern 20]))
     = Some (None, set_version_attrs sample_build empty_world, [],
         map Invoked
          [CommonBindings_register, Extern 10, LogBindings_bind, VersionBindings_bind,
           DataQueueBindings_bind, OpenVINOBindings_bind, Extern 20,
           AssetManagerBindings_bind, PipelineBindings_bind, XLinkBindings_bind,
           DeviceBindings_bind, DeviceBootloaderBindings_bind,
           CalibrationHandlerBindings_bind, RosBindings_bind, NoOpLambda])"
  by (simp add: CommonBindings_bind_def Callstack_DequeBack callstack_eq sample_eval quiet_code_def)

lemma sample_eager_bind:
  "CommonBindings_bind eager_code (set_version_attrs sample_build empty_world)
       (Callstack DequeFront (callstack [Extern 10] [Extern 20]))
     = Some (None, set_version_attrs sample_build empty_world, [],
         map Invoked
          [CommonBindings_register, Extern 40, NoOpLambda, RosBindings_bind,
           CalibrationHandlerBindings_bind, DeviceBootloaderBindings_bind,
           DeviceBindings_bind, XLinkBindings_bind, PipelineBindings_bind,
           AssetManagerBindings_bind, Extern 20, OpenVINOBindings_bind,
           DataQueueBindings_bind, VersionBindings_bind, LogBindings_bind, Extern 10])"
  by (simp add: CommonBindings_bind_def Callstack_DequeFront callstack_eq sample_eval eager_code_def)

lemma sample_eager_common:
  "drain eager_code (set_version_attrs sample_build empty_world) [CommonBindings_register] []
     = Some (None, set_version_attrs sample_build empty_world, [],
         [Invoked CommonBindings_register, Invoked (Extern 40)])"
  by (simp add: sample_eval eager_code_def)

lemma sample_failing_bind:
  "CommonBindings_bind failing_code (set_version_attrs sample_build empty_world)
       (callstack [Extern 10] [Extern 20])
     = Some (Some (StdException ''registration failed''),
         setattr ''Device'' (PyObject 0)
           (setattr ''ros'' (PyObject 1) (set_version_attrs sample_build empty_world)),
         [XLinkBindings_bind, PipelineBindings_bind, AssetManagerBindings_bind, Extern 20,
          OpenVINOBindings_bind, DataQueueBindings_bind, VersionBindings_bind,
          LogBindings_bind, Extern 10],
         map Invoked
          [CommonBindings_register, NoOpLambda, RosBindings_bind,
           CalibrationHandlerBindings_bind, DeviceBootloaderBindings_bind,
           DeviceBindings_bind])"
  by (simp add: CommonBindings_bind_def callstack_eq sample_eval failing_code_def)

lemma sample_nested_steps:
  "drain_steps nested_failing_code 7 (set_version_attrs sample_build empty_world)
      (CommonBindings_register # Callstack DequeFront (callstack [Extern 10] [Extern 20])) []
    = Some (set_version_attrs sample_build empty_world,
        Extern 30 # [PipelineBindings_bind, AssetManagerBindings_bind, Extern 20,
           OpenVINOBindings_bind, DataQueueBindings_bind, VersionBindings_bind,
           LogBindings_bind, Extern 10],
        map Invoked [CommonBindings_register, NoOpLambda, RosBindings_bind,
          CalibrationHandlerBindings_bind, DeviceBootloaderBindings_bind, DeviceBindings_bind,
          XLinkBindings_bind])"
  by (simp add: eval_nat_numeral Callstack_DequeFront callstack_eq invoke_def
        nested_failing_code_def push_front_def)

lemma sample_rebinding_bind:
  "CommonBindings_bind rebinding_code (set_version_attrs sample_build empty_world)
       (callstack [Extern 10] [Extern 20])
     = Some (None, setattr ''__version__'' (PyStr ''rebound'') (set_version_attrs sample_build empty_world),
         [],
         map Invoked
          [CommonBindings_register, NoOpLambda, RosBindings_bind,
           CalibrationHandlerBindings_bind, DeviceBootloaderBindings_bind,
           DeviceBindings_bind, XLinkBindings_bind, PipelineBindings_bind,
           AssetManagerBindings_bind, Extern 20, OpenVINOBindings_bind,
           DataQueueBindings_bind, VersionBindings_bind, LogBindings_bind, Extern 10])"
  by (simp add: CommonBindings_bind_def callstack_eq sample_eval rebinding_code_def)

lemma sample_looping_bind:
  "CommonBindings_bind looping_code w (callstack datatype_cbs node_cbs) = None"
proof (cases "CommonBindings_bind looping_code w (callstack datatype_cbs node_cbs)")
  case (Some r)
  from drain_looping[OF Some[unfolded CommonBindings_bind_def]] show ?thesis by simp
qed simp


section \<open>Execution order of the drain\<close>

text \<open>
  C1. When a callback \<open>f\<close> returns having pushed the batch \<open>pushed\<close>, the drain of
  \<open>f # pending\<close> is the drain of the batch followed by the drain of \<open>pending\<close>: in a
  drain that completes, the log is \<open>f\<close>, then everything the batch runs (each pushed
  callback among it), then everything \<open>pending\<close> runs; and if the batch throws or never
  ends, nothing of \<open>pending\<close> runs. In the scenario, the work-list X, Y, Z, with X the
  first to be taken, is executed as X, Y, Y2, Y1, Z.
\<close>

theorem pushed_batch_runs_before_pending:
  "(invoke code f w = (None, w', pushed)
      \<and> drain code w (f # pending) log = Some (None, w_end, rest, L)
     \<longrightarrow> (\<exists>w'' T1 T2.
            L = log @ Invoked f # T1 @ T2
          \<and> drain code w' (fold push_front pushed []) (log @ [Invoked f])
              = Some (None, w'', [], log @ Invoked f # T1)
          \<and> drain code w'' pending (log @ Invoked f # T1) = Some (None, w_end, [], L)
          \<and> Invoked ` set pushed \<subseteq> set T1
          \<and> Invoked ` set pending \<subseteq> set T2))
   \<and> (invoke code f w = (None, w', pushed)
     \<longrightarrow> drain code w (f # pending) log
           = then_drain code (drain code w' (fold push_front pushed []) (log @ [Invoked f])) pending)
   \<and> drain scenario_code empty_world [cb_X, cb_Y, cb_Z] []
       = Some (None, empty_world, [], map Invoked [cb_X, cb_Y, cb_Y2, cb_Y1, cb_Z])"
proof (intro conjI impI)
  assume h: "invoke code f w = (None, w', pushed)
      \<and> drain code w (f # pending) log = Some (None, w_end, rest, L)"
  then have inv: "invoke code f w = (None, w', pushed)"
    and run: "drain code w (f # pending) log = Some (None, w_end, rest, L)" by simp_all
  let ?l = "log @ [Invoked f]"
  from drain_Cons_ok[OF inv, of pending log] run
  have seq: "then_drain code (drain code w' (fold push_front pushed []) ?l) pending
               = Some (None, w_end, rest, L)" by simp
  then obtain e1 w'' r1 L1 where
    batch: "drain code w' (fold push_front pushed []) ?l = Some (e1, w'', r1, L1)"
    by (cases "drain code w' (fold push_front pushed []) ?l") (auto simp: then_drain_def)
  have e1: "e1 = None"
    using seq batch by (cases e1) (simp_all add: then_drain_def)
  from batch e1 have r1: "r1 = []" using drain_ok_empty by blast
  from seq batch e1 r1 have tail: "drain code w'' pending L1 = Some (None, w_end, rest, L)"
    by (simp add: then_drain_def)
  from batch e1 obtain T1 where T1: "L1 = ?l @ T1" "Invoked ` set (fold push_front pushed []) \<subseteq> set T1"
    using drain_ok_covers by blast
  from tail obtain T2 where T2: "L = L1 @ T2" "Invoked ` set pending \<subseteq> set T2"
    using drain_ok_covers by blast
  from tail have rest: "rest = []" using drain_ok_empty by blast
  show "\<exists>w'' T1 T2.
            L = log @ Invoked f # T1 @ T2
          \<and> drain code w' (fold push_front pushed []) (log @ [Invoked f])
              = Some (None, w'', [], log @ Invoked f # T1)
          \<and> drain code w'' pending (log @ Invoked f # T1) = Some (None, w_end, [], L)
          \<and> Invoked ` set pushed \<subseteq> set T1
          \<and> Invoked ` set pending \<subseteq> set T2"
  proof (rule exI[of _ w''], rule exI[of _ T1], rule exI[of _ T2], intro conjI)
    show "L = log @ Invoked f # T1 @ T2" using T1(1) T2(1) by simp
    show "drain code w' (fold push_front pushed []) (log @ [Invoked f])
              = Some (None, w'', [], log @ Invoked f # T1)"
      using batch e1 r1 T1(1) by simp
    show "drain code w'' pending (log @ Invoked f # T1) = Some (None, w_end, [], L)"
      using tail rest T1(1) by simp
    show "Invoked ` set pushed \<subseteq> set T1" using T1(2) by (simp add: fold_push_front)
    show "Invoked ` set pending \<subseteq> set T2" by (rule T2(2))
  qed
next
  assume "invoke code f w = (None, w', pushed)"
  then show "drain code w (f # pending) log
           = then_drain code (drain code w' (fold push_front pushed []) (log @ [Invoked f])) pending"
    by (rule drain_Cons_ok)
next
  show "drain scenario_code empty_world [cb_X, cb_Y, cb_Z] []
       = Some (None, empty_world, [], map Invoked [cb_X, cb_Y, cb_Y2, cb_Y1, cb_Z])"
    by (rule scenario_front_to_back)
qed

theorem pushed_batch_runs_before_pending_witness:
  "invoke scenario_code cb_Y empty_world = (None, empty_world, [cb_Y1, cb_Y2])
   \<and> drain scenario_code empty_world [cb_Y, cb_Z] [Invoked cb_X]
       = Some (None, empty_world, [], map Invoked [cb_X, cb_Y, cb_Y2, cb_Y1, cb_Z])
   \<and> (\<exists>w'' T1 T2.
          map Invoked [cb_X, cb_Y, cb_Y2, cb_Y1, cb_Z] = [Invoked cb_X] @ Invoked cb_Y # T1 @ T2
        \<and> drain scenario_code empty_world (fold push_front [cb_Y1, cb_Y2] []) ([Invoked cb_X] @ [Invoked cb_Y])
            = Some (None, w'', [], [Invoked cb_X] @ Invoked cb_Y # T1)
        \<and> drain scenario_code w'' [cb_Z] ([Invoked cb_X] @ Invoked cb_Y # T1)
            = Some (None, empty_world, [], map Invoked [cb_X, cb_Y, cb_Y2, cb_Y1, cb_Z])
        \<and> Invoked ` set [cb_Y1, cb_Y2] \<subseteq> set T1
        \<and> Invoked ` set [cb_Z] \<subseteq> set T2)"
proof -
  have inv: "invoke scenario_code cb_Y empty_world = (None, empty_world, [cb_Y1, cb_Y2])"
    by (simp add: scenario_defs)
  have run: "drain scenario_code empty_world [cb_Y, cb_Z] [Invoked cb_X]
       = Some (None, empty_world, [], map Invoked [cb_X, cb_Y, cb_Y2, cb_Y1, cb_Z])"
    by (simp add: drain_Cons drain_Nil scenario_defs)
  from inv run
    pushed_batch_runs_before_pending[where code = scenario_code and f = cb_Y and w = empty_world
      and w' = empty_world and pushed = "[cb_Y1, cb_Y2]" and pending = "[cb_Z]"
      and log = "[Invoked cb_X]" and w_end = empty_world and rest = "[]"
      and L = "map Invoked [cb_X, cb_Y, cb_Y2, cb_Y1, cb_Z]"]
  show ?thesis by blast
qed




section \<open>The signal-handler option\<close>

text \<open>
  C3. The resolved flag is the conjunction of the default \<open>True\<close> with every value found in
  \<^verbatim>\<open>sys\<close> and \<^verbatim>\<open>builtins\<close>: it agrees with the resolution in the spec's words; it is
  true when the first namespace defines true and the second nothing, false when the first
  defines false and the second true, true when neither defines it; and a probe that fails
  (module not importable, attribute absent, value rejected by the conversion) leaves the
  accumulated value as it was.
\<close>

theorem installSignalHandler_resolution:
  "fst (installSignalHandler caster w log) = resolve_spec caster w
   \<and> (tryRead caster w ''sys'' = Some True \<and> tryRead caster w ''builtins'' = None
        \<longrightarrow> fst (installSignalHandler caster w log) = True)
   \<and> (tryRead caster w ''sys'' = Some False \<and> tryRead caster w ''builtins'' = Some True
        \<longrightarrow> fst (installSignalHandler caster w log) = False)
   \<and> (tryRead caster w ''sys'' = None \<and> tryRead caster w ''builtins'' = None
        \<longrightarrow> fst (installSignalHandler caster w log) = True)
   \<and> (importable w name = None \<longrightarrow> fst (probe caster w name (acc, log)) = acc)
   \<and> (importable w name = Some ns \<and> ns signalHandlerKey = None
        \<longrightarrow> fst (probe caster w name (acc, log)) = acc)
   \<and> (importable w name = Some ns \<and> ns signalHandlerKey = Some v \<and> caster v = None
        \<longrightarrow> fst (probe caster w name (acc, log)) = acc)"
  by (auto simp: installSignalHandler_eq resolve_spec_def probe_fst tryRead_def)

theorem installSignalHandler_resolution_witness:
  "(tryRead strict_caster (flag_world (Some (PyBool True)) None) ''sys'' = Some True
    \<and> tryRead strict_caster (flag_world (Some (PyBool True)) None) ''builtins'' = None
    \<and> fst (installSignalHandler strict_caster (flag_world (Some (PyBool True)) None) []) = True)
   \<and> (tryRead strict_caster (flag_world (Some (PyBool False)) (Some (PyBool True))) ''sys'' = Some False
    \<and> tryRead strict_caster (flag_world (Some (PyBool False)) (Some (PyBool True))) ''builtins'' = Some True
    \<and> fst (installSignalHandler strict_caster (flag_world (Some (PyBool False)) (Some (PyBool True))) []) = False)
   \<and> (tryRead strict_caster (flag_world None None) ''sys'' = None
    \<and> tryRead strict_caster (flag_world None None) ''builtins'' = None
    \<and> fst (installSignalHandler strict_caster (flag_world None None) []) = True)
   \<and> (importable (flag_world None None) ''os'' = None
    \<and> fst (probe strict_caster (flag_world None None) ''os'' (False, [])) = False)
   \<and> (importable (flag_world None (Some (PyStr ''yes''))) ''sys'' = Some (\<lambda>k. None)
    \<and> fst (probe strict_caster (flag_world None (Some (PyStr ''yes''))) ''sys'' (False, [])) = False)
   \<and> (importable (flag_world None (Some (PyStr ''yes''))) ''builtins''
          = Some (\<lambda>k. if k = signalHandlerKey then Some (PyStr ''yes'') else None)
    \<and> strict_caster (PyStr ''yes'') = None
    \<and> fst (probe strict_caster (flag_world None (Some (PyStr ''yes''))) ''builtins'' (True, [])) = True)"
proof -
  let ?A = "flag_world (Some (PyBool True)) None"
  let ?B = "flag_world (Some (PyBool False)) (Some (PyBool True))"
  let ?C = "flag_world None None"
  let ?D = "flag_world None (Some (PyStr ''yes''))"
  let ?ns = "\<lambda>k. if k = signalHandlerKey then Some (PyStr ''yes'') else None"
  have a: "tryRead strict_caster ?A ''sys'' = Some True" "tryRead strict_caster ?A ''builtins'' = None"
    by (simp_all add: tryRead_flag_world strict_caster_def)
  have b: "tryRead strict_caster ?B ''sys'' = Some False" "tryRead strict_caster ?B ''builtins'' = Some True"
    by (simp_all add: tryRead_flag_world strict_caster_def)
  have c: "tryRead strict_caster ?C ''sys'' = None" "tryRead strict_caster ?C ''builtins'' = None"
    by (simp_all add: tryRead_flag_world)
  have d: "importable ?C ''os'' = None"
    by (simp add: flag_world_def)
  have e: "importable ?D ''sys'' = Some (\<lambda>k. None)" "(\<lambda>k. None :: pyobj option) signalHandlerKey = None"
    by (simp_all add: flag_world_def)
  have f: "importable ?D ''builtins'' = Some ?ns" "?ns signalHandlerKey = Some (PyStr ''yes'')"
    "strict_caster (PyStr ''yes'') = None"
    by (simp_all add: flag_world_def strict_caster_def)
  have ra: "fst (installSignalHandler strict_caster ?A []) = True"
    using a installSignalHandler_resolution[where caster = strict_caster and log = "[]" and w = ?A
        and name = "''os''" and acc = False and ns = "\<lambda>k. None" and v = "PyBool True"]
    by auto
  have rb: "fst (installSignalHandler strict_caster ?B []) = False"
    using b installSignalHandler_resolution[where caster = strict_caster and log = "[]" and w = ?B
        and name = "''os''" and acc = False and ns = "\<lambda>k. None" and v = "PyBool True"]
    by auto
  have rc: "fst (installSignalHandler strict_caster ?C []) = True"
    using c installSignalHandler_resolution[where caster = strict_caster and log = "[]" and w = ?C
        and name = "''os''" and acc = False and ns = "\<lambda>k. None" and v = "PyBool True"]
    by auto
  have rd: "fst (probe strict_caster ?C ''os'' (False, [])) = False"
    using d installSignalHandler_resolution[where caster = strict_caster and log = "[]" and w = ?C
        and name = "''os''" and acc = False and ns = "\<lambda>k. None" and v = "PyBool True"]
    by auto
  have re: "fst (probe strict_caster ?D ''sys'' (False, [])) = False"
    using e installSignalHandler_resolution[where caster = strict_caster and log = "[]" and w = ?D
        and name = "''sys''" and acc = False and ns = "\<lambda>k. None" and v = "PyBool True"]
    by auto
  have rf: "fst (probe strict_caster ?D ''builtins'' (True, [])) = True"
    using f installSignalHandler_resolution[where caster = strict_caster and log = "[]" and w = ?D
        and name = "''builtins''" and acc = True and ns = ?ns and v = "PyStr ''yes''"]
    by auto
  from a b c d e(1) f(1,3) ra rb rc rd re rf show ?thesis by simp
qed

section \<open>Failures\<close>

text \<open>
  C4 (amended). If every failure of the initializer derives from \<^verbatim>\<open>std::exception\<close>, module
  construction gives the same result (exception, state, log) as with an initializer that
  returns; in particular it ends without an exception whenever the initial call returned
  without one.
\<close>

theorem initializer_failure_discarded:
  "(\<forall>text flag s. initialize text flag \<noteq> Some (NonStdException s))
   \<longrightarrow> depthai_module bi datatype_cbs node_cbs code caster initialize m
         = depthai_module bi datatype_cbs node_cbs code caster initialize_ok m
     \<and> (CommonBindings_bind code (set_version_attrs bi m) (callstack datatype_cbs node_cbs)
            = Some (None, w', rest, log)
         \<longrightarrow> outcome (depthai_module bi datatype_cbs node_cbs code caster initialize m) = Some None)"
proof (intro impI conjI)
  assume std: "\<forall>text flag s. initialize text flag \<noteq> Some (NonStdException s)"
  have caught: "(case initialize t fl of
         None \<Rightarrow> None
       | Some (StdException s) \<Rightarrow> None
       | Some (NonStdException s) \<Rightarrow> Some (NonStdException s)) = None" for t fl
  proof (cases "initialize t fl")
    case None
    then show ?thesis by simp
  next
    case (Some x)
    with std show ?thesis by (cases x) auto
  qed
  have ok: "initialize_ok t fl = None" for t fl
    by (simp add: initialize_ok_def)
  show "depthai_module bi datatype_cbs node_cbs code caster initialize m
         = depthai_module bi datatype_cbs node_cbs code caster initialize_ok m"
  proof (cases "CommonBindings_bind code (set_version_attrs bi m) (callstack datatype_cbs node_cbs)")
    case None
    then show ?thesis by (simp add: depthai_module_diverge)
  next
    case (Some r)
    obtain ex w1 q1 l1 where r: "r = (ex, w1, q1, l1)" by (cases r)
    show ?thesis
    proof (cases ex)
      case None
      with Some r show ?thesis by (simp add: depthai_module_ok caught ok)
    next
      case (Some e)
      with \<open>CommonBindings_bind code (set_version_attrs bi m) (callstack datatype_cbs node_cbs) = Some r\<close> r
      show ?thesis by (simp add: depthai_module_raise)
    qed
  qed
  assume run: "CommonBindings_bind code (set_version_attrs bi m) (callstack datatype_cbs node_cbs)
            = Some (None, w', rest, log)"
  from depthai_module_ok[OF run, of caster initialize]
  show "outcome (depthai_module bi datatype_cbs node_cbs code caster initialize m) = Some None"
    by (simp add: outcome_def caught)
qed

theorem initializer_failure_discarded_witness:
  "(\<forall>text flag s. initialize_failing text flag \<noteq> Some (NonStdException s))
   \<and> initialize_failing (banner sample_build) True = Some (StdException ''runtime_error'')
   \<and> CommonBindings_bind quiet_code (set_version_attrs sample_build empty_world)
        (callstack [Extern 10] [Extern 20])
      = Some (None, set_version_attrs sample_build empty_world, [],
         map Invoked
          [CommonBindings_register, NoOpLambda, RosBindings_bind,
           CalibrationHandlerBindings_bind, DeviceBootloaderBindings_bind,
           DeviceBindings_bind, XLinkBindings_bind, PipelineBindings_bind,
           AssetManagerBindings_bind, Extern 20, OpenVINOBindings_bind,
           DataQueueBindings_bind, VersionBindings_bind, LogBindings_bind, Extern 10])
   \<and> depthai_module sample_build [Extern 10] [Extern 20] quiet_code strict_caster initialize_failing empty_world
      = depthai_module sample_build [Extern 10] [Extern 20] quiet_code strict_caster initialize_ok empty_world
   \<and> outcome (depthai_module sample_build [Extern 10] [Extern 20] quiet_code strict_caster
        initialize_failing empty_world) = Some None"
proof -
  have std: "\<forall>text flag s. initialize_failing text flag \<noteq> Some (NonStdException s)"
    by (simp add: initialize_failing_def)
  have thrown: "initialize_failing (banner sample_build) True = Some (StdException ''runtime_error'')"
    by (simp add: initialize_failing_def)
  from std thrown sample_quiet_bind
    initializer_failure_discarded[where initialize = initialize_failing and bi = sample_build
      and datatype_cbs = "[Extern 10]" and node_cbs = "[Extern 20]" and code = quiet_code
      and caster = strict_caster and m = empty_world
      and w' = "set_version_attrs sample_build empty_world" and rest = "[]"
      and log = "map Invoked
          [CommonBindings_register, NoOpLambda, RosBindings_bind,
           CalibrationHandlerBindings_bind, DeviceBootloaderBindings_bind,
           DeviceBindings_bind, XLinkBindings_bind, PipelineBindings_bind,
           AssetManagerBindings_bind, Extern 20, OpenVINOBindings_bind,
           DataQueueBindings_bind, VersionBindings_bind, LogBindings_bind, Extern 10]"]
  show ?thesis by blast
qed

text \<open>
  C4 as stated fails: a value thrown by the initializer that does not derive from
  \<^verbatim>\<open>std::exception\<close> is not matched by the handler of line 101 and leaves module
  construction, which would have ended normally had the initializer returned.
\<close>

theorem initializer_foreign_exception_counterexample:
  "outcome (depthai_module sample_build [Extern 10] [Extern 20] quiet_code strict_caster
       initialize_alien empty_world) = Some (Some (NonStdException ''int''))
   \<and> outcome (depthai_module sample_build [Extern 10] [Extern 20] quiet_code strict_caster
       initialize_ok empty_world) = Some None"
  using depthai_module_ok[OF sample_quiet_bind, of strict_caster initialize_alien]
    depthai_module_ok[OF sample_quiet_bind, of strict_caster initialize_ok]
  by (simp add: outcome_def initialize_alien_def initialize_ok_def)

text \<open>
  C5. Take the drain of the module's work-list at any of its iterations, after \<open>n\<close> callbacks
  (seeded, or pushed by a running callback) have returned: if the callback \<open>f\<close> then at the
  front throws \<open>e\<close>, the initial call ends with \<open>e\<close>, the callbacks below \<open>f\<close> are still in the
  list under whatever \<open>f\<close> pushed, and module construction ends with the same \<open>e\<close>, the
  state exactly as \<open>f\<close> left it (nothing is rolled back) and a log that stops at the
  invocation of \<open>f\<close>: no further callback, no import, no initializer call. Conversely, an
  initial call that ends with an exception ends so because of such a callback. This holds
  whichever end of the deque the adapter takes first.
\<close>

theorem registration_failure_propagates:
  "(drain_steps code n (set_version_attrs bi m)
        (CommonBindings_register # Callstack side (callstack datatype_cbs node_cbs)) []
      = Some (w_n, f # below, log_n)
    \<and> invoke code f w_n = (Some e, w', pushed)
    \<longrightarrow> CommonBindings_bind code (set_version_attrs bi m)
            (Callstack side (callstack datatype_cbs node_cbs))
          = Some (Some e, w', fold push_front pushed below, log_n @ [Invoked f])
        \<and> depthai_module_with side bi datatype_cbs node_cbs code caster initialize m
          = Some \<lparr>raised = Some e, final = w', events = log_n @ [Invoked f]\<rparr>)
   \<and> (CommonBindings_bind code (set_version_attrs bi m)
          (Callstack side (callstack datatype_cbs node_cbs))
        = Some (Some e, w', remaining, log)
    \<longrightarrow> depthai_module_with side bi datatype_cbs node_cbs code caster initialize m
          = Some \<lparr>raised = Some e, final = w', events = log\<rparr>
        \<and> (\<exists>k w_k g under pushed_by_g log_k.
              drain_steps code k (set_version_attrs bi m)
                  (CommonBindings_register # Callstack side (callstack datatype_cbs node_cbs)) []
                = Some (w_k, g # under, log_k)
            \<and> invoke code g w_k = (Some e, w', pushed_by_g)
            \<and> remaining = fold push_front pushed_by_g under
            \<and> log = log_k @ [Invoked g]))"
proof (intro conjI impI)
  assume h: "drain_steps code n (set_version_attrs bi m)
        (CommonBindings_register # Callstack side (callstack datatype_cbs node_cbs)) []
      = Some (w_n, f # below, log_n)
    \<and> invoke code f w_n = (Some e, w', pushed)"
  then have steps: "drain_steps code n (set_version_attrs bi m)
        (CommonBindings_register # Callstack side (callstack datatype_cbs node_cbs)) []
      = Some (w_n, f # below, log_n)"
    and raise: "invoke code f w_n = (Some e, w', pushed)" by simp_all
  show run: "CommonBindings_bind code (set_version_attrs bi m)
            (Callstack side (callstack datatype_cbs node_cbs))
          = Some (Some e, w', fold push_front pushed below, log_n @ [Invoked f])"
    unfolding CommonBindings_bind_def by (rule drain_steps_raise[OF steps raise])
  from depthai_module_with_raise[OF run]
  show "depthai_module_with side bi datatype_cbs node_cbs code caster initialize m
          = Some \<lparr>raised = Some e, final = w', events = log_n @ [Invoked f]\<rparr>" .
next
  assume run: "CommonBindings_bind code (set_version_attrs bi m)
          (Callstack side (callstack datatype_cbs node_cbs))
        = Some (Some e, w', remaining, log)"
  from depthai_module_with_raise[OF run]
  show "depthai_module_with side bi datatype_cbs node_cbs code caster initialize m
          = Some \<lparr>raised = Some e, final = w', events = log\<rparr>" .
  from drain_raise_steps[OF run[unfolded CommonBindings_bind_def], rule_format, OF refl]
  show "\<exists>k w_k g under pushed_by_g log_k.
              drain_steps code k (set_version_attrs bi m)
                  (CommonBindings_register # Callstack side (callstack datatype_cbs node_cbs)) []
                = Some (w_k, g # under, log_k)
            \<and> invoke code g w_k = (Some e, w', pushed_by_g)
            \<and> remaining = fold push_front pushed_by_g under
            \<and> log = log_k @ [Invoked g]" .
qed

theorem registration_failure_propagates_witness:
  "drain_steps nested_failing_code 7 (set_version_attrs sample_build empty_world)
      (CommonBindings_register # Callstack DequeFront (callstack [Extern 10] [Extern 20])) []
    = Some (set_version_attrs sample_build empty_world,
        Extern 30 # [PipelineBindings_bind, AssetManagerBindings_bind, Extern 20,
           OpenVINOBindings_bind, DataQueueBindings_bind, VersionBindings_bind,
           LogBindings_bind, Extern 10],
        map Invoked [CommonBindings_register, NoOpLambda, RosBindings_bind,
          CalibrationHandlerBindings_bind, DeviceBootloaderBindings_bind, DeviceBindings_bind,
          XLinkBindings_bind])
   \<and> invoke nested_failing_code (Extern 30) (set_version_attrs sample_build empty_world)
      = (Some (StdException ''nested failure''),
         setattr ''partial'' (PyObject 2) (set_version_attrs sample_build empty_world), [])
   \<and> CommonBindings_bind nested_failing_code (set_version_attrs sample_build empty_world)
        (Callstack DequeFront (callstack [Extern 10] [Extern 20]))
      = Some (Some (StdException ''nested failure''),
          setattr ''partial'' (PyObject 2) (set_version_attrs sample_build empty_world),
          fold push_front []
            [PipelineBindings_bind, AssetManagerBindings_bind, Extern 20,
             OpenVINOBindings_bind, DataQueueBindings_bind, VersionBindings_bind,
             LogBindings_bind, Extern 10],
          map Invoked [CommonBindings_register, NoOpLambda, RosBindings_bind,
            CalibrationHandlerBindings_bind, DeviceBootloaderBindings_bind, DeviceBindings_bind,
            XLinkBindings_bind] @ [Invoked (Extern 30)])
   \<and> depthai_module_with DequeFront sample_build [Extern 10] [Extern 20] nested_failing_code
        strict_caster initialize_ok empty_world
      = Some \<lparr>raised = Some (StdException ''nested failure''),
              final = setattr ''partial'' (PyObject 2) (set_version_attrs sample_build empty_world),
              events = map Invoked [CommonBindings_register, NoOpLambda, RosBindings_bind,
                CalibrationHandlerBindings_bind, DeviceBootloaderBindings_bind,
                DeviceBindings_bind, XLinkBindings_bind] @ [Invoked (Extern 30)]\<rparr>
   \<and> (\<exists>k w_k g under pushed_by_g log_k.
         drain_steps nested_failing_code k (set_version_attrs sample_build empty_world)
             (CommonBindings_register # Callstack DequeFront (callstack [Extern 10] [Extern 20])) []
           = Some (w_k, g # under, log_k)
       \<and> invoke nested_failing_code g w_k
           = (Some (StdException ''nested failure''),
              setattr ''partial'' (PyObject 2) (set_version_attrs sample_build empty_world),
              pushed_by_g)
       \<and> fold push_front []
            [PipelineBindings_bind, AssetManagerBindings_bind, Extern 20,
             OpenVINOBindings_bind, DataQueueBindings_bind, VersionBindings_bind,
             LogBindings_bind, Extern 10] = fold push_front pushed_by_g under
       \<and> map Invoked [CommonBindings_register, NoOpLambda, RosBindings_bind,
            CalibrationHandlerBindings_bind, DeviceBootloaderBindings_bind, DeviceBindings_bind,
            XLinkBindings_bind] @ [Invoked (Extern 30)] = log_k @ [Invoked g])"
proof -
  let ?w0 = "set_version_attrs sample_build empty_world"
  let ?w1 = "setattr ''partial'' (PyObject 2) ?w0"
  let ?below = "[PipelineBindings_bind, AssetManagerBindings_bind, Extern 20,
           OpenVINOBindings_bind, DataQueueBindings_bind, VersionBindings_bind,
           LogBindings_bind, Extern 10]"
  let ?log = "map Invoked [CommonBindings_register, NoOpLambda, RosBindings_bind,
          CalibrationHandlerBindings_bind, DeviceBootloaderBindings_bind, DeviceBindings_bind,
          XLinkBindings_bind]"
  let ?e = "StdException ''nested failure''"
  have raise: "invoke nested_failing_code (Extern 30) ?w0 = (Some ?e, ?w1, [])"
    by (simp add: invoke_def nested_failing_code_def)
  note inst = registration_failure_propagates[where code = nested_failing_code and n = 7
      and bi = sample_build and m = empty_world and side = DequeFront
      and datatype_cbs = "[Extern 10]" and node_cbs = "[Extern 20]" and w_n = ?w0
      and f = "Extern 30" and below = ?below and log_n = ?log and e = ?e and w' = ?w1
      and pushed = "[]" and caster = strict_caster and initialize = initialize_ok
      and remaining = "fold push_front [] ?below" and log = "?log @ [Invoked (Extern 30)]"]
  from sample_nested_steps raise inst
  have fwd: "CommonBindings_bind nested_failing_code ?w0
        (Callstack DequeFront (callstack [Extern 10] [Extern 20]))
      = Some (Some ?e, ?w1, fold push_front [] ?below, ?log @ [Invoked (Extern 30)])"
    and built: "depthai_module_with DequeFront sample_build [Extern 10] [Extern 20]
        nested_failing_code strict_caster initialize_ok empty_world
      = Some \<lparr>raised = Some ?e, final = ?w1, events = ?log @ [Invoked (Extern 30)]\<rparr>"
    by blast+
  from fwd inst
  have bwd: "\<exists>k w_k g under pushed_by_g log_k.
         drain_steps nested_failing_code k ?w0
             (CommonBindings_register # Callstack DequeFront (callstack [Extern 10] [Extern 20])) []
           = Some (w_k, g # under, log_k)
       \<and> invoke nested_failing_code g w_k = (Some ?e, ?w1, pushed_by_g)
       \<and> fold push_front [] ?below = fold push_front pushed_by_g under
       \<and> ?log @ [Invoked (Extern 30)] = log_k @ [Invoked g]"
    by blast
  from sample_nested_steps raise fwd built bwd show ?thesis by blast
qed

section \<open>The initializer\<close>

text \<open>
  C6. If the initial call returns without throwing, module construction calls the
  initializer exactly once, with the banner and the resolved flag, as its last logged
  event, after every invocation of a callback and after the two imports, and what leaves
  module construction is what the initializer threw past the handler of line 101. If the
  initial call throws, module construction ends with that exception, its log is the log of
  the initial call and the initializer is never called. If the initial call never returns,
  nothing follows it. This holds whichever end of the deque the adapter takes first.
\<close>

theorem initializer_once_after_drain:
  "(CommonBindings_bind code (set_version_attrs bi m)
        (Callstack side (callstack datatype_cbs node_cbs)) = Some (None, w', rest, log)
     \<longrightarrow> (\<exists>r. depthai_module_with side bi datatype_cbs node_cbs code caster initialize m = Some r
           \<and> events r = log @ [Imported ''sys'', Imported ''builtins'',
                                 Initialized (banner bi) (fst (installSignalHandler caster w' log))]
           \<and> initializer_calls log = []
           \<and> initializer_calls (events r)
               = [(banner bi, fst (installSignalHandler caster w' log))]
           \<and> raised r
               = (case initialize (banner bi) (fst (installSignalHandler caster w' log)) of
                    None \<Rightarrow> None
                  | Some (StdException s) \<Rightarrow> None
                  | Some (NonStdException s) \<Rightarrow> Some (NonStdException s))))
   \<and> (CommonBindings_bind code (set_version_attrs bi m)
        (Callstack side (callstack datatype_cbs node_cbs)) = Some (Some e, w', rest, log)
     \<longrightarrow> (\<exists>r. depthai_module_with side bi datatype_cbs node_cbs code caster initialize m = Some r
           \<and> raised r = Some e
           \<and> events r = log
           \<and> initializer_calls (events r) = []))
   \<and> (CommonBindings_bind code (set_version_attrs bi m)
        (Callstack side (callstack datatype_cbs node_cbs)) = None
     \<longrightarrow> depthai_module_with side bi datatype_cbs node_cbs code caster initialize m = None)"
proof (intro conjI impI)
  assume run: "CommonBindings_bind code (set_version_attrs bi m)
        (Callstack side (callstack datatype_cbs node_cbs)) = Some (None, w', rest, log)"
  from CommonBindings_bind_no_initializer[OF run] have none: "initializer_calls log = []" .
  from depthai_module_with_ok[OF run, of caster initialize] none
  show "\<exists>r. depthai_module_with side bi datatype_cbs node_cbs code caster initialize m = Some r
           \<and> events r = log @ [Imported ''sys'', Imported ''builtins'',
                                 Initialized (banner bi) (fst (installSignalHandler caster w' log))]
           \<and> initializer_calls log = []
           \<and> initializer_calls (events r)
               = [(banner bi, fst (installSignalHandler caster w' log))]
           \<and> raised r
               = (case initialize (banner bi) (fst (installSignalHandler caster w' log)) of
                    None \<Rightarrow> None
                  | Some (StdException s) \<Rightarrow> None
                  | Some (NonStdException s) \<Rightarrow> Some (NonStdException s))"
    by (simp add: initializer_calls_append)
next
  assume run: "CommonBindings_bind code (set_version_attrs bi m)
        (Callstack side (callstack datatype_cbs node_cbs)) = Some (Some e, w', rest, log)"
  from CommonBindings_bind_no_initializer[OF run] have none: "initializer_calls log = []" .
  from depthai_module_with_raise[OF run, of caster initialize] none
  show "\<exists>r. depthai_module_with side bi datatype_cbs node_cbs code caster initialize m = Some r
           \<and> raised r = Some e
           \<and> events r = log
           \<and> initializer_calls (events r) = []"
    by simp
next
  assume "CommonBindings_bind code (set_version_attrs bi m)
        (Callstack side (callstack datatype_cbs node_cbs)) = None"
  then show "depthai_module_with side bi datatype_cbs node_cbs code caster initialize m = None"
    by (rule depthai_module_with_diverge)
qed

theorem initializer_once_after_drain_witness:
  "(CommonBindings_bind quiet_code (set_version_attrs sample_build empty_world)
        (Callstack DequeBack (callstack [Extern 10] [Extern 20]))
      = Some (None, set_version_attrs sample_build empty_world, [],
         map Invoked
          [CommonBindings_register, Extern 10, LogBindings_bind, VersionBindings_bind,
           DataQueueBindings_bind, OpenVINOBindings_bind, Extern 20,
           AssetManagerBindings_bind, PipelineBindings_bind, XLinkBindings_bind,
           DeviceBindings_bind, DeviceBootloaderBindings_bind,
           CalibrationHandlerBindings_bind, RosBindings_bind, NoOpLambda])
    \<and> (\<exists>r. depthai_module_with DequeBack sample_build [Extern 10] [Extern 20] quiet_code
              strict_caster initialize_alien empty_world = Some r
          \<and> initializer_calls (events r) = [(banner sample_build, True)]
          \<and> raised r = Some (NonStdException ''int''))
    \<and> (\<exists>r. depthai_module_with DequeBack sample_build [Extern 10] [Extern 20] quiet_code
              strict_caster initialize_failing empty_world = Some r
          \<and> initializer_calls (events r) = [(banner sample_build, True)]
          \<and> raised r = None))
   \<and> (CommonBindings_bind failing_code (set_version_attrs sample_build empty_world)
        (Callstack DequeFront (callstack [Extern 10] [Extern 20]))
      = Some (Some (StdException ''registration failed''),
         setattr ''Device'' (PyObject 0)
           (setattr ''ros'' (PyObject 1) (set_version_attrs sample_build empty_world)),
         [XLinkBindings_bind, PipelineBindings_bind, AssetManagerBindings_bind, Extern 20,
          OpenVINOBindings_bind, DataQueueBindings_bind, VersionBindings_bind,
          LogBindings_bind, Extern 10],
         map Invoked
          [CommonBindings_register, NoOpLambda, RosBindings_bind,
           CalibrationHandlerBindings_bind, DeviceBootloaderBindings_bind,
           DeviceBindings_bind])
    \<and> (\<exists>r. depthai_module_with DequeFront sample_build [Extern 10] [Extern 20] failing_code
              strict_caster initialize_alien empty_world = Some r
          \<and> raised r = Some (StdException ''registration failed'')
          \<and> initializer_calls (events r) = []))
   \<and> (CommonBindings_bind looping_code (set_version_attrs sample_build empty_world)
        (Callstack DequeFront (callstack [Extern 10] [Extern 20])) = None
    \<and> depthai_module_with DequeFront sample_build [Extern 10] [Extern 20] looping_code
          strict_caster initialize_alien empty_world = None)"
proof -
  let ?w0 = "set_version_attrs sample_build empty_world"
  let ?log = "map Invoked
          [CommonBindings_register, Extern 10, LogBindings_bind, VersionBindings_bind,
           DataQueueBindings_bind, OpenVINOBindings_bind, Extern 20,
           AssetManagerBindings_bind, PipelineBindings_bind, XLinkBindings_bind,
           DeviceBindings_bind, DeviceBootloaderBindings_bind,
           CalibrationHandlerBindings_bind, RosBindings_bind, NoOpLambda]"
  have alien: "\<exists>r. depthai_module_with DequeBack sample_build [Extern 10] [Extern 20] quiet_code
              strict_caster initialize_alien empty_world = Some r
          \<and> initializer_calls (events r) = [(banner sample_build, True)]
          \<and> raised r = Some (NonStdException ''int'')"
    using sample_quiet_bind_back
      initializer_once_after_drain[where code = quiet_code and bi = sample_build
        and m = empty_world and datatype_cbs = "[Extern 10]" and node_cbs = "[Extern 20]"
        and side = DequeBack and w' = ?w0 and rest = "[]" and log = ?log
        and caster = strict_caster and initialize = initialize_alien]
    by (auto simp: sample_flag initialize_alien_def)
  have std: "\<exists>r. depthai_module_with DequeBack sample_build [Extern 10] [Extern 20] quiet_code
              strict_caster initialize_failing empty_world = Some r
          \<and> initializer_calls (events r) = [(banner sample_build, True)]
          \<and> raised r = None"
    using sample_quiet_bind_back
      initializer_once_after_drain[where code = quiet_code and bi = sample_build
        and m = empty_world and datatype_cbs = "[Extern 10]" and node_cbs = "[Extern 20]"
        and side = DequeBack and w' = ?w0 and rest = "[]" and log = ?log
        and caster = strict_caster and initialize = initialize_failing]
    by (auto simp: sample_flag initialize_failing_def)
  have failing: "CommonBindings_bind failing_code ?w0
        (Callstack DequeFront (callstack [Extern 10] [Extern 20]))
      = Some (Some (StdException ''registration failed''),
         setattr ''Device'' (PyObject 0) (setattr ''ros'' (PyObject 1) ?w0),
         [XLinkBindings_bind, PipelineBindings_bind, AssetManagerBindings_bind, Extern 20,
          OpenVINOBindings_bind, DataQueueBindings_bind, VersionBindings_bind,
          LogBindings_bind, Extern 10],
         map Invoked
          [CommonBindings_register, NoOpLambda, RosBindings_bind,
           CalibrationHandlerBindings_bind, DeviceBootloaderBindings_bind,
           DeviceBindings_bind])"
    using sample_failing_bind by (simp add: Callstack_DequeFront)
  have bad: "\<exists>r. depthai_module_with DequeFront sample_build [Extern 10] [Extern 20] failing_code
              strict_caster initialize_alien empty_world = Some r
          \<and> raised r = Some (StdException ''registration failed'')
          \<and> initializer_calls (events r) = []"
    using failing
      initializer_once_after_drain[where code = failing_code and bi = sample_build
        and m = empty_world and datatype_cbs = "[Extern 10]" and node_cbs = "[Extern 20]"
        and side = DequeFront and caster = strict_caster and initialize = initialize_alien
        and e = "StdException ''registration failed''"]
    by blast
  have looping: "CommonBindings_bind looping_code ?w0
        (Callstack DequeFront (callstack [Extern 10] [Extern 20])) = None"
    using sample_looping_bind by (simp add: Callstack_DequeFront)
  have loop: "depthai_module_with DequeFront sample_build [Extern 10] [Extern 20] looping_code
          strict_caster initialize_alien empty_world = None"
    using looping
      initializer_once_after_drain[where code = looping_code and bi = sample_build
        and m = empty_world and datatype_cbs = "[Extern 10]" and node_cbs = "[Extern 20]"
        and side = DequeFront and caster = strict_caster and initialize = initialize_alien]
    by blast
  from alien std bad loop sample_quiet_bind_back failing looping
  show ?thesis by blast
qed

section \<open>The sentinel and the version attributes\<close>


text \<open>
  C8 (amended). The seven assignments give the module the seven attributes, each a string
  with the value of its build constant, and leave every other attribute as it was; the
  seven names are distinct, so each is assigned once. The attributes are ordinary ones:
  they still have these values when construction ends provided no registration callback
  assigns them again.
\<close>

theorem version_attributes:
  "module_attrs (set_version_attrs bi m) ''__version__'' = Some (PyStr (DEPTHAI_PYTHON_VERSION bi))
   \<and> module_attrs (set_version_attrs bi m) ''__commit__'' = Some (PyStr (DEPTHAI_PYTHON_COMMIT_HASH bi))
   \<and> module_attrs (set_version_attrs bi m) ''__commit_datetime__''
       = Some (PyStr (DEPTHAI_PYTHON_COMMIT_DATETIME bi))
   \<and> module_attrs (set_version_attrs bi m) ''__build_datetime__''
       = Some (PyStr (DEPTHAI_PYTHON_BUILD_DATETIME bi))
   \<and> module_attrs (set_version_attrs bi m) ''__device_version__'' = Some (PyStr (DEVICE_VERSION bi))
   \<and> module_attrs (set_version_attrs bi m) ''__bootloader_version__''
       = Some (PyStr (BOOTLOADER_VERSION bi))
   \<and> module_attrs (set_version_attrs bi m) ''__device_rvc3_version__''
       = Some (PyStr (DEVICE_RVC3_VERSION bi))
   \<and> (name \<notin> set version_attr_names
        \<longrightarrow> module_attrs (set_version_attrs bi m) name = module_attrs m name)
   \<and> distinct version_attr_names
   \<and> length version_attr_names = 7
   \<and> ((\<forall>f w e w' ps. code f w = (e, w', ps)
            \<longrightarrow> (\<forall>name \<in> set version_attr_names. module_attrs w' name = module_attrs w name))
        \<and> depthai_module bi datatype_cbs node_cbs code caster initialize m = Some r
        \<longrightarrow> (\<forall>name \<in> set version_attr_names.
               module_attrs (final r) name = module_attrs (set_version_attrs bi m) name))"
proof (intro conjI impI)
  assume "name \<notin> set version_attr_names"
  then show "module_attrs (set_version_attrs bi m) name = module_attrs m name"
    by (simp add: set_version_attrs_lookup version_attr_names_def)
next
  assume h: "(\<forall>f w e w' ps. code f w = (e, w', ps)
            \<longrightarrow> (\<forall>name \<in> set version_attr_names. module_attrs w' name = module_attrs w name))
        \<and> depthai_module bi datatype_cbs node_cbs code caster initialize m = Some r"
  let ?w0 = "set_version_attrs bi m"
  let ?P = "\<lambda>w. \<forall>name \<in> set version_attr_names. module_attrs w name = module_attrs ?w0 name"
  from h have keep: "\<And>f w e w' ps. ?P w \<Longrightarrow> code f w = (e, w', ps) \<Longrightarrow> ?P w'"
    by metis
  from h have built: "depthai_module bi datatype_cbs node_cbs code caster initialize m = Some r"
    by simp
  from depthai_module_final[OF built] obtain e q l where
    run: "CommonBindings_bind code ?w0 (callstack datatype_cbs node_cbs) = Some (e, final r, q, l)"
    by (elim exE)
  from drain_invariant[where P = ?P, OF run[unfolded CommonBindings_bind_def] keep]
  show "\<forall>name \<in> set version_attr_names.
               module_attrs (final r) name = module_attrs (set_version_attrs bi m) name"
    by simp
qed (simp_all add: set_version_attrs_lookup version_attr_names_def)

theorem version_attributes_witness:
  "''Device'' \<notin> set version_attr_names
   \<and> module_attrs (set_version_attrs sample_build empty_world) ''Device'' = None
   \<and> depthai_module sample_build [Extern 10] [Extern 20] failing_code strict_caster initialize_ok empty_world
       = Some \<lparr>raised = Some (StdException ''registration failed''),
               final = setattr ''Device'' (PyObject 0)
                         (setattr ''ros'' (PyObject 1) (set_version_attrs sample_build empty_world)),
               events = map Invoked [CommonBindings_register, NoOpLambda, RosBindings_bind,
                 CalibrationHandlerBindings_bind, DeviceBootloaderBindings_bind, DeviceBindings_bind]\<rparr>
   \<and> map (module_attrs (setattr ''Device'' (PyObject 0)
                         (setattr ''ros'' (PyObject 1) (set_version_attrs sample_build empty_world))))
         version_attr_names
       = map (module_attrs (set_version_attrs sample_build empty_world)) version_attr_names
   \<and> module_attrs (setattr ''Device'' (PyObject 0)
                         (setattr ''ros'' (PyObject 1) (set_version_attrs sample_build empty_world)))
         ''__version__'' = Some (PyStr ''2.21.0.0'')"
proof -
  let ?r = "\<lparr>raised = Some (StdException ''registration failed''),
               final = setattr ''Device'' (PyObject 0)
                         (setattr ''ros'' (PyObject 1) (set_version_attrs sample_build empty_world)),
               events = map Invoked [CommonBindings_register, NoOpLambda, RosBindings_bind,
                 CalibrationHandlerBindings_bind, DeviceBootloaderBindings_bind, DeviceBindings_bind]\<rparr>"
  have notin: "''Device'' \<notin> set version_attr_names"
    by (simp add: version_attr_names_def)
  have run: "depthai_module sample_build [Extern 10] [Extern 20] failing_code strict_caster
      initialize_ok empty_world = Some ?r"
    using depthai_module_raise[OF sample_failing_bind, of strict_caster initialize_ok] by simp
  note inst = version_attributes[where bi = sample_build and m = empty_world and name = "''Device''"
      and code = failing_code and datatype_cbs = "[Extern 10]" and node_cbs = "[Extern 20]"
      and caster = strict_caster and initialize = initialize_ok and r = ?r]
  have a: "module_attrs (set_version_attrs sample_build empty_world) ''Device'' = None"
    using inst notin by (simp add: empty_world_def)
  have b: "\<forall>name \<in> set version_attr_names.
        module_attrs (final ?r) name = module_attrs (set_version_attrs sample_build empty_world) name"
    using inst failing_code_keeps run by blast
  then have b': "map (module_attrs (final ?r)) version_attr_names
      = map (module_attrs (set_version_attrs sample_build empty_world)) version_attr_names"
    by simp
  have c: "module_attrs (final ?r) ''__version__'' = Some (PyStr ''2.21.0.0'')"
    using b inst by (simp add: version_attr_names_def sample_build_def)
  from notin a run b' c show ?thesis by simp
qed

text \<open>
  C8 as stated fails: nothing makes the attributes immutable. A registration callback that
  assigns \<^verbatim>\<open>__version__\<close> leaves the constructed module with the new value, and the
  assignment the file itself uses rebinds the attribute when applied once more.
\<close>

theorem version_rebound_counterexample:
  "final_attr ''__version__''
      (depthai_module sample_build [Extern 10] [Extern 20] rebinding_code strict_caster
         initialize_ok empty_world) = Some (PyStr ''rebound'')
   \<and> PyStr ''rebound'' \<noteq> PyStr (DEPTHAI_PYTHON_VERSION sample_build)
   \<and> module_attrs (set_version_attrs sample_build empty_world) ''__version__''
       = Some (PyStr (DEPTHAI_PYTHON_VERSION sample_build))
   \<and> module_attrs (setattr ''__version__'' (PyStr ''rebound'')
         (set_version_attrs sample_build empty_world)) ''__version__'' = Some (PyStr ''rebound'')"
  using depthai_module_ok[OF sample_rebinding_bind, of strict_caster initialize_ok]
  by (simp add: final_attr_def setattr_def sample_build_def set_version_attrs_lookup)

text \<open>
  C9 (amended). The lambda is the front element of the seeded deque. If the adapter takes
  the front of the deque first, then, once the common registration and what it pushed have
  run, the invocation of the lambda is the next entry of the log, and in a drain that
  completes every other seeded callback is invoked after it. If the adapter takes the back
  of the deque first, then in a drain that completes the invocation of the lambda is the
  last entry of the log, after the common registration and every other seeded callback.
\<close>

theorem sentinel_position:
  "hd (callstack datatype_cbs node_cbs) = NoOpLambda
   \<and> (CommonBindings_bind code w (Callstack DequeFront (callstack datatype_cbs node_cbs))
          = Some (e, w', rest, log)
        \<and> drain code w [CommonBindings_register] [] = Some (None, w_common, rest_common, log_common)
        \<longrightarrow> (\<exists>tr. log = log_common @ Invoked NoOpLambda # tr
                 \<and> (e = None \<longrightarrow> Invoked ` set (tl (callstack datatype_cbs node_cbs)) \<subseteq> set tr)))
   \<and> (CommonBindings_bind code w (Callstack DequeBack (callstack datatype_cbs node_cbs))
          = Some (None, w', rest, log)
        \<longrightarrow> (\<exists>before.
                 log = before @ [Invoked NoOpLambda]
               \<and> Invoked ` set (CommonBindings_register
                                  # butlast (Callstack DequeBack (callstack datatype_cbs node_cbs)))
                   \<subseteq> set before))"
proof (intro conjI impI)
  show "hd (callstack datatype_cbs node_cbs) = NoOpLambda"
    by (simp add: callstack_eq)
next
  assume h: "CommonBindings_bind code w (Callstack DequeFront (callstack datatype_cbs node_cbs))
          = Some (e, w', rest, log)
        \<and> drain code w [CommonBindings_register] [] = Some (None, w_common, rest_common, log_common)"
  then have run: "drain code w ([CommonBindings_register] @ callstack datatype_cbs node_cbs) []
      = Some (e, w', rest, log)"
    and common: "drain code w [CommonBindings_register] [] = Some (None, w_common, rest_common, log_common)"
    by (simp_all add: CommonBindings_bind_def Callstack_DequeFront)
  from common have empty: "rest_common = []" using drain_ok_empty by blast
  from run have "then_drain code (drain code w [CommonBindings_register] [])
      (callstack datatype_cbs node_cbs) = Some (e, w', rest, log)"
    by (simp only: drain_append)
  with common empty have "drain code w_common (callstack datatype_cbs node_cbs) log_common
      = Some (e, w', rest, log)"
    by (simp add: then_drain_def)
  then have tail: "drain code w_common (tl (callstack datatype_cbs node_cbs))
      (log_common @ [Invoked NoOpLambda]) = Some (e, w', rest, log)"
    by (simp add: drain_callstack_step)
  from drain_result[OF tail] obtain tr where
    tr: "log = (log_common @ [Invoked NoOpLambda]) @ tr"
        "e = None \<longrightarrow> rest = [] \<and> Invoked ` set (tl (callstack datatype_cbs node_cbs)) \<subseteq> set tr"
    by auto
  show "\<exists>tr. log = log_common @ Invoked NoOpLambda # tr
          \<and> (e = None \<longrightarrow> Invoked ` set (tl (callstack datatype_cbs node_cbs)) \<subseteq> set tr)"
    using tr by (intro exI[of _ tr]) simp
next
  assume run: "CommonBindings_bind code w (Callstack DequeBack (callstack datatype_cbs node_cbs))
          = Some (None, w', rest, log)"
  let ?xs = "CommonBindings_register # butlast (Callstack DequeBack (callstack datatype_cbs node_cbs))"
  have split: "CommonBindings_register # Callstack DequeBack (callstack datatype_cbs node_cbs)
      = ?xs @ [NoOpLambda]"
    using callstack_back_snoc[of datatype_cbs node_cbs] by simp
  from run have "drain code w (?xs @ [NoOpLambda]) [] = Some (None, w', rest, log)"
    unfolding CommonBindings_bind_def split .
  then have seq: "then_drain code (drain code w ?xs []) [NoOpLambda] = Some (None, w', rest, log)"
    by (simp only: drain_append)
  then obtain e1 w1 r1 l1 where pre: "drain code w ?xs [] = Some (e1, w1, r1, l1)"
    by (cases "drain code w ?xs []") (auto simp: then_drain_def)
  have e1: "e1 = None" using seq pre by (cases e1) (simp_all add: then_drain_def)
  from pre e1 have r1: "r1 = []" using drain_ok_empty by blast
  from seq pre e1 r1 have "drain code w1 [NoOpLambda] l1 = Some (None, w', rest, log)"
    by (simp add: then_drain_def)
  then have log: "log = l1 @ [Invoked NoOpLambda]"
    by (simp add: drain_Cons drain_Nil invoke_NoOpLambda push_front_def)
  from pre e1 drain_ok_covers[of code w ?xs "[]" w1 r1 l1]
  have "Invoked ` set ?xs \<subseteq> set l1" by auto
  with log show "\<exists>before.
                 log = before @ [Invoked NoOpLambda]
               \<and> Invoked ` set (CommonBindings_register
                                  # butlast (Callstack DequeBack (callstack datatype_cbs node_cbs)))
                   \<subseteq> set before"
    by blast
qed

theorem sentinel_position_witness:
  "CommonBindings_bind eager_code (set_version_attrs sample_build empty_world)
       (Callstack DequeFront (callstack [Extern 10] [Extern 20]))
     = Some (None, set_version_attrs sample_build empty_world, [],
         map Invoked
          [CommonBindings_register, Extern 40, NoOpLambda, RosBindings_bind,
           CalibrationHandlerBindings_bind, DeviceBootloaderBindings_bind,
           DeviceBindings_bind, XLinkBindings_bind, PipelineBindings_bind,
           AssetManagerBindings_bind, Extern 20, OpenVINOBindings_bind,
           DataQueueBindings_bind, VersionBindings_bind, LogBindings_bind, Extern 10])
   \<and> drain eager_code (set_version_attrs sample_build empty_world) [CommonBindings_register] []
     = Some (None, set_version_attrs sample_build empty_world, [],
         [Invoked CommonBindings_register, Invoked (Extern 40)])
   \<and> (\<exists>tr. map Invoked
          [CommonBindings_register, Extern 40, NoOpLambda, RosBindings_bind,
           CalibrationHandlerBindings_bind, DeviceBootloaderBindings_bind,
           DeviceBindings_bind, XLinkBindings_bind, PipelineBindings_bind,
           AssetManagerBindings_bind, Extern 20, OpenVINOBindings_bind,
           DataQueueBindings_bind, VersionBindings_bind, LogBindings_bind, Extern 10]
         = [Invoked CommonBindings_register, Invoked (Extern 40)] @ Invoked NoOpLambda # tr
       \<and> Invoked ` set (tl (callstack [Extern 10] [Extern 20])) \<subseteq> set tr)
   \<and> CommonBindings_bind quiet_code (set_version_attrs sample_build empty_world)
       (Callstack DequeBack (callstack [Extern 10] [Extern 20]))
     = Some (None, set_version_attrs sample_build empty_world, [],
         map Invoked
          [CommonBindings_register, Extern 10, LogBindings_bind, VersionBindings_bind,
           DataQueueBindings_bind, OpenVINOBindings_bind, Extern 20,
           AssetManagerBindings_bind, PipelineBindings_bind, XLinkBindings_bind,
           DeviceBindings_bind, DeviceBootloaderBindings_bind,
           CalibrationHandlerBindings_bind, RosBindings_bind, NoOpLambda])
   \<and> (\<exists>before.
         map Invoked
          [CommonBindings_register, Extern 10, LogBindings_bind, VersionBindings_bind,
           DataQueueBindings_bind, OpenVINOBindings_bind, Extern 20,
           AssetManagerBindings_bind, PipelineBindings_bind, XLinkBindings_bind,
           DeviceBindings_bind, DeviceBootloaderBindings_bind,
           CalibrationHandlerBindings_bind, RosBindings_bind, NoOpLambda]
           = before @ [Invoked NoOpLambda]
       \<and> Invoked ` set (CommonBindings_register
                          # butlast (Callstack DequeBack (callstack [Extern 10] [Extern 20])))
           \<subseteq> set before)"
proof -
  let ?w0 = "set_version_attrs sample_build empty_world"
  let ?lf = "map Invoked
          [CommonBindings_register, Extern 40, NoOpLambda, RosBindings_bind,
           CalibrationHandlerBindings_bind, DeviceBootloaderBindings_bind,
           DeviceBindings_bind, XLinkBindings_bind, PipelineBindings_bind,
           AssetManagerBindings_bind, Extern 20, OpenVINOBindings_bind,
           DataQueueBindings_bind, VersionBindings_bind, LogBindings_bind, Extern 10]"
  let ?lb = "map Invoked
          [CommonBindings_register, Extern 10, LogBindings_bind, VersionBindings_bind,
           DataQueueBindings_bind, OpenVINOBindings_bind, Extern 20,
           AssetManagerBindings_bind, PipelineBindings_bind, XLinkBindings_bind,
           DeviceBindings_bind, DeviceBootloaderBindings_bind,
           CalibrationHandlerBindings_bind, RosBindings_bind, NoOpLambda]"
  have a: "\<exists>tr. ?lf = [Invoked CommonBindings_register, Invoked (Extern 40)] @ Invoked NoOpLambda # tr
       \<and> Invoked ` set (tl (callstack [Extern 10] [Extern 20])) \<subseteq> set tr"
    using sample_eager_bind sample_eager_common
      sentinel_position[where code = eager_code and w = ?w0 and datatype_cbs = "[Extern 10]"
        and node_cbs = "[Extern 20]" and e = None and w' = ?w0 and rest = "[]" and log = ?lf
        and w_common = ?w0 and rest_common = "[]"
        and log_common = "[Invoked CommonBindings_register, Invoked (Extern 40)]"]
    by blast
  have b: "\<exists>before. ?lb = before @ [Invoked NoOpLambda]
       \<and> Invoked ` set (CommonBindings_register
                          # butlast (Callstack DequeBack (callstack [Extern 10] [Extern 20])))
           \<subseteq> set before"
    using sample_quiet_bind_back
      sentinel_position[where code = quiet_code and w = ?w0 and datatype_cbs = "[Extern 10]"
        and node_cbs = "[Extern 20]" and w' = ?w0 and rest = "[]" and log = ?lb]
    by blast
  from sample_eager_bind sample_eager_common a sample_quiet_bind_back b show ?thesis by blast
qed

text \<open>
  C9 as stated fails: with the front of the deque taken first, a callback pushed by the
  common registration is a work-list entry invoked before the lambda; with the back of the
  deque taken first (line 70 calls the lambda the end of the callstack), the lambda is
  invoked after every other seeded callback, the ROS extension included.
\<close>

theorem sentinel_not_first_counterexample:
  "trace (depthai_module_with DequeFront sample_build [Extern 10] [Extern 20] eager_code
       strict_caster initialize_ok empty_world)
     = Some (map Invoked
          [CommonBindings_register, Extern 40, NoOpLambda, RosBindings_bind,
           CalibrationHandlerBindings_bind, DeviceBootloaderBindings_bind,
           DeviceBindings_bind, XLinkBindings_bind, PipelineBindings_bind,
           AssetManagerBindings_bind, Extern 20, OpenVINOBindings_bind,
           DataQueueBindings_bind, VersionBindings_bind, LogBindings_bind, Extern 10]
        @ [Imported ''sys'', Imported ''builtins'', Initialized (banner sample_build) True])
   \<and> \<not> runs_before NoOpLambda (Extern 40)
        (map Invoked
          [CommonBindings_register, Extern 40, NoOpLambda, RosBindings_bind,
           CalibrationHandlerBindings_bind, DeviceBootloaderBindings_bind,
           DeviceBindings_bind, XLinkBindings_bind, PipelineBindings_bind,
           AssetManagerBindings_bind, Extern 20, OpenVINOBindings_bind,
           DataQueueBindings_bind, VersionBindings_bind, LogBindings_bind, Extern 10]
        @ [Imported ''sys'', Imported ''builtins'', Initialized (banner sample_build) True])
   \<and> trace (depthai_module_with DequeBack sample_build [Extern 10] [Extern 20] quiet_code
       strict_caster initialize_ok empty_world)
     = Some (map Invoked
          [CommonBindings_register, Extern 10, LogBindings_bind, VersionBindings_bind,
           DataQueueBindings_bind, OpenVINOBindings_bind, Extern 20,
           AssetManagerBindings_bind, PipelineBindings_bind, XLinkBindings_bind,
           DeviceBindings_bind, DeviceBootloaderBindings_bind,
           CalibrationHandlerBindings_bind, RosBindings_bind, NoOpLambda]
        @ [Imported ''sys'', Imported ''builtins'', Initialized (banner sample_build) True])
   \<and> \<not> runs_before NoOpLambda RosBindings_bind
        (map Invoked
          [CommonBindings_register, Extern 10, LogBindings_bind, VersionBindings_bind,
           DataQueueBindings_bind, OpenVINOBindings_bind, Extern 20,
           AssetManagerBindings_bind, PipelineBindings_bind, XLinkBindings_bind,
           DeviceBindings_bind, DeviceBootloaderBindings_bind,
           CalibrationHandlerBindings_bind, RosBindings_bind, NoOpLambda]
        @ [Imported ''sys'', Imported ''builtins'', Initialized (banner sample_build) True])"
  using depthai_module_with_ok[OF sample_eager_bind, of strict_caster initialize_ok]
    depthai_module_with_ok[OF sample_quiet_bind_back, of strict_caster initialize_ok]
  by (simp add: trace_def sample_flag runs_before_def)

section \<open>Where the option is read\<close>

text \<open>
  C10. The flag is read under the one attribute name \<^verbatim>\<open>DEPTHAI_INSTALL_SIGNAL_HANDLER\<close>;
  exactly two modules are imported for it, \<^verbatim>\<open>sys\<close> and then \<^verbatim>\<open>builtins\<close>; the flag is the
  conjunction of what the conversion makes of that attribute of \<^verbatim>\<open>sys\<close> and of that
  attribute of \<^verbatim>\<open>builtins\<close>, a module or attribute that is missing, or a value that is
  rejected, counting as true; so two processes that agree on that attribute of those two
  modules resolve the same flag, whatever else they contain.
\<close>

theorem signal_handler_probes:
  "signalHandlerKey = ''DEPTHAI_INSTALL_SIGNAL_HANDLER''
   \<and> snd (installSignalHandler caster w log) = log @ [Imported ''sys'', Imported ''builtins'']
   \<and> fst (installSignalHandler caster w log)
       = ((case Option.bind
                 (Option.bind (importable w ''sys'') (\<lambda>ns. ns ''DEPTHAI_INSTALL_SIGNAL_HANDLER''))
                 caster of
             None \<Rightarrow> True | Some b \<Rightarrow> b)
          \<and> (case Option.bind
                 (Option.bind (importable w ''builtins'') (\<lambda>ns. ns ''DEPTHAI_INSTALL_SIGNAL_HANDLER''))
                 caster of
             None \<Rightarrow> True | Some b \<Rightarrow> b))
   \<and> ((\<forall>name \<in> {''sys'', ''builtins''}.
          Option.bind (importable w name) (\<lambda>ns. ns ''DEPTHAI_INSTALL_SIGNAL_HANDLER'')
            = Option.bind (importable w' name) (\<lambda>ns. ns ''DEPTHAI_INSTALL_SIGNAL_HANDLER''))
        \<longrightarrow> fst (installSignalHandler caster w log) = fst (installSignalHandler caster w' log'))"
proof (intro conjI impI)
  show "signalHandlerKey = ''DEPTHAI_INSTALL_SIGNAL_HANDLER''"
    by (simp add: signalHandlerKey_def)
  show "snd (installSignalHandler caster w log) = log @ [Imported ''sys'', Imported ''builtins'']"
    by (simp add: installSignalHandler_eq)
  show "fst (installSignalHandler caster w log)
       = ((case Option.bind
                 (Option.bind (importable w ''sys'') (\<lambda>ns. ns ''DEPTHAI_INSTALL_SIGNAL_HANDLER''))
                 caster of
             None \<Rightarrow> True | Some b \<Rightarrow> b)
          \<and> (case Option.bind
                 (Option.bind (importable w ''builtins'') (\<lambda>ns. ns ''DEPTHAI_INSTALL_SIGNAL_HANDLER''))
                 caster of
             None \<Rightarrow> True | Some b \<Rightarrow> b))"
    by (simp add: installSignalHandler_eq tryRead_bind signalHandlerKey_def)
next
  assume agree: "\<forall>name \<in> {''sys'', ''builtins''}.
          Option.bind (importable w name) (\<lambda>ns. ns ''DEPTHAI_INSTALL_SIGNAL_HANDLER'')
            = Option.bind (importable w' name) (\<lambda>ns. ns ''DEPTHAI_INSTALL_SIGNAL_HANDLER'')"
  have "tryRead caster w name = tryRead caster w' name" if "name \<in> {''sys'', ''builtins''}" for name
    using agree that unfolding tryRead_bind signalHandlerKey_def by metis
  then have "tryRead caster w ''sys'' = tryRead caster w' ''sys''"
    and "tryRead caster w ''builtins'' = tryRead caster w' ''builtins''"
    by simp_all
  then show "fst (installSignalHandler caster w log) = fst (installSignalHandler caster w' log')"
    by (simp add: installSignalHandler_eq)
qed

theorem signal_handler_probes_witness:
  "installSignalHandler strict_caster (flag_world (Some (PyBool False)) None) []
     = (False, [Imported ''sys'', Imported ''builtins''])
   \<and> installSignalHandler strict_caster (flag_world (Some (PyBool True)) (Some (PyBool False))) []
     = (False, [Imported ''sys'', Imported ''builtins''])
   \<and> installSignalHandler strict_caster (flag_world (Some (PyBool True)) (Some (PyBool True))) []
     = (True, [Imported ''sys'', Imported ''builtins''])
   \<and> Option.bind (importable (flag_world (Some (PyBool False)) None) ''sys'')
        (\<lambda>ns. ns ''DEPTHAI_INSTALL_SIGNAL_HANDLER'')
      = Option.bind (importable (noisy_world (Some (PyBool False)) None) ''sys'')
          (\<lambda>ns. ns ''DEPTHAI_INSTALL_SIGNAL_HANDLER'')
   \<and> Option.bind (importable (flag_world (Some (PyBool False)) None) ''builtins'')
        (\<lambda>ns. ns ''DEPTHAI_INSTALL_SIGNAL_HANDLER'')
      = Option.bind (importable (noisy_world (Some (PyBool False)) None) ''builtins'')
          (\<lambda>ns. ns ''DEPTHAI_INSTALL_SIGNAL_HANDLER'')
   \<and> importable (noisy_world (Some (PyBool False)) None) ''os''
       \<noteq> importable (flag_world (Some (PyBool False)) None) ''os''
   \<and> fst (installSignalHandler strict_caster (flag_world (Some (PyBool False)) None) [])
       = fst (installSignalHandler strict_caster (noisy_world (Some (PyBool False)) None) [Imported ''os''])"
proof -
  let ?F = "flag_world (Some (PyBool False)) None"
  let ?TF = "flag_world (Some (PyBool True)) (Some (PyBool False))"
  let ?TT = "flag_world (Some (PyBool True)) (Some (PyBool True))"
  let ?N = "noisy_world (Some (PyBool False)) None"
  have f: "installSignalHandler strict_caster ?F [] = (False, [Imported ''sys'', Imported ''builtins''])"
    using signal_handler_probes[where caster = strict_caster and w = ?F and log = "[]" and w' = ?F
        and log' = "[]"]
    by (simp add: prod_eq_iff flag_world_lookup strict_caster_def)
  have tf: "installSignalHandler strict_caster ?TF [] = (False, [Imported ''sys'', Imported ''builtins''])"
    using signal_handler_probes[where caster = strict_caster and w = ?TF and log = "[]" and w' = ?TF
        and log' = "[]"]
    by (simp add: prod_eq_iff flag_world_lookup strict_caster_def)
  have tt: "installSignalHandler strict_caster ?TT [] = (True, [Imported ''sys'', Imported ''builtins''])"
    using signal_handler_probes[where caster = strict_caster and w = ?TT and log = "[]" and w' = ?TT
        and log' = "[]"]
    by (simp add: prod_eq_iff flag_world_lookup strict_caster_def)
  have sys: "Option.bind (importable ?F ''sys'') (\<lambda>ns. ns ''DEPTHAI_INSTALL_SIGNAL_HANDLER'')
        = Option.bind (importable ?N ''sys'') (\<lambda>ns. ns ''DEPTHAI_INSTALL_SIGNAL_HANDLER'')"
    by (simp add: flag_world_lookup noisy_world_lookup)
  have builtins: "Option.bind (importable ?F ''builtins'') (\<lambda>ns. ns ''DEPTHAI_INSTALL_SIGNAL_HANDLER'')
        = Option.bind (importable ?N ''builtins'') (\<lambda>ns. ns ''DEPTHAI_INSTALL_SIGNAL_HANDLER'')"
    by (simp add: flag_world_lookup noisy_world_lookup)
  from sys builtins have agree: "\<forall>name \<in> {''sys'', ''builtins''}.
      Option.bind (importable ?F name) (\<lambda>ns. ns ''DEPTHAI_INSTALL_SIGNAL_HANDLER'')
        = Option.bind (importable ?N name) (\<lambda>ns. ns ''DEPTHAI_INSTALL_SIGNAL_HANDLER'')"
    by blast
  have os: "importable ?N ''os'' \<noteq> importable ?F ''os''"
    by (simp add: flag_world_def noisy_world_def)
  have same: "fst (installSignalHandler strict_caster ?F [])
      = fst (installSignalHandler strict_caster ?N [Imported ''os''])"
    using agree signal_handler_probes[where caster = strict_caster and w = ?F and w' = ?N
        and log = "[]" and log' = "[Imported ''os'']"]
    by blast
  from f tf tt sys builtins os same show ?thesis by blast
qed

end
